theory Spec2Isabelle
  imports Main "HOL-Library.Word"
begin

unbundle bit_operations_syntax

section \<open>Data model of the VS1053 driver (vs1053\_SdFat.cpp)\<close>

type_synonym u8 = "8 word"
type_synonym u16 = "16 word"
type_synonym u32 = "32 word"
type_synonym u64 = "64 word"

text \<open>The enumerations \<open>state_m\<close>, \<open>format_m\<close> and \<open>flush_m\<close> are declared in the
  header; the constructors are the enumerators the translation unit uses.\<close>

datatype state_m =
  uninitialized | initialized | ready | playback | paused_playback | recording
  | finishing | cancelling | skipping | loading | testing_sinewave | testing_memory
  | playMIDIbeep

datatype format_m = mp3 | aac | wma | wav | fla | mid | ogg | unknownFormat | supportedFormat

datatype flush_m = post | pre | both | none

text \<open>What can go wrong in C without a result code: a busy-wait that never ends, an
  array or table read outside its bounds, a division by zero.  \<open>OutOfFuel\<close> is the
  model's own: the recursion budget of \<open>refill\<close> was used up.\<close>

datatype fault = Hang | OutOfBounds | DivByZero | OutOfFuel

text \<open>Everything that crosses the serial bus, newest event first: the two select
  lines (with the \<open>toWrite\<close> flag \<open>spiInit\<close> was given) and every byte
  \<open>SPI.transfer\<close> sends.\<close>

datatype bus_event = CsLow bool | CsHigh | DcsLow bool | DcsHigh | Xfer u8

text \<open>Every call into the storage collaborator, newest first.\<close>

datatype storage_op =
  OpOpen string bool | OpRead nat | OpReadByte | OpSeekSet u32 | OpSeekCur int
  | OpSeekEnd | OpClose

text \<open>Modelled from the spec: the storage collaborator (\<open>SdFile\<close> of the SdFat
  library, section 6 of the specification) is not part of src/.  A handle is open or
  closed, has the bytes of its file and a read position.\<close>

record sdfile =
  fopen :: bool
  fdata :: "u8 list"
  fpos :: nat

text \<open>The static members of class \<open>vs1053\<close> together with the platform state the
  translation unit reads and writes: the level driven on MP3\_RESET, whether the refill
  notification is attached, the samples the DREQ input will deliver (once the list is
  used up the line stays low), the bus log, the card's files and the storage log.\<close>

record world =
  playing_state :: state_m
  isPatched :: bool
  isSkipping :: bool
  trackFormat :: format_m
  duration :: u16
  position :: u32
  skipToPosition :: u16
  isRecordingStereo :: bool
  VolL :: u8
  VolR :: u8
  mp3DataBuffer :: "u8 list"
  bufferOffset :: u16
  registers_backup :: "u16 list"
  bitrate :: u16
  start_of_music :: u32
  track :: sdfile
  reset_pin :: bool
  refill_enabled :: bool
  ogg_refill_enabled :: bool
  dreq_in :: "bool list"
  bus_log :: "bus_event list"
  sd_files :: "(string \<times> u8 list) list"
  sd_readonly :: bool
  sd_log :: "storage_op list"

text \<open>What the translation unit takes from the header and from the hardware: the
  buffer size, the register addresses and mode bits, the build switches, and the chip
  itself, as the byte it puts on MISO given everything it has seen on the bus.\<close>

record env =
  BUFFER_SIZE :: nat
  SKIPPING_SPEED :: u32
  SM_LAYER12 :: u16
  SM_RESET :: u16
  SM_CANCEL :: u16
  SM_ADPCM :: u16
  SM_LINE1 :: u16
  SCI_MODE :: u8
  SCI_BASS :: u8
  SCI_CLOCKF :: u8
  SCI_DECODE_TIME :: u8
  SCI_WRAM :: u8
  SCI_WRAMADDR :: u8
  SCI_AIADDR :: u8
  SCI_VOL :: u8
  SCI_AICTRL1 :: u8
  SCI_AICTRL2 :: u8
  SCI_AICTRL3 :: u8
  para_playSpeed :: u16
  para_byteRate :: u16
  para_endFillByte :: u16
  para_interrupt :: u16
  PROFILE_LOADER_is_IMG :: bool
  VS_LINE1_MODE :: bool
  chip :: "bus_event list \<Rightarrow> u8"

type_synonym 'a result = "fault + 'a \<times> world"

definition andThen :: "'a result \<Rightarrow> ('a \<Rightarrow> world \<Rightarrow> 'b result) \<Rightarrow> 'b result" where
  "andThen m f = (case m of Inl e \<Rightarrow> Inl e | Inr (x, w) \<Rightarrow> f x w)"

section \<open>Pins, select lines and the bus\<close>

text \<open>\<open>digitalRead(MP3_DREQ)\<close>: the next sample of the line.\<close>

definition digitalRead_DREQ :: "world \<Rightarrow> bool \<times> world" where
  "digitalRead_DREQ w =
     (case dreq_in w of [] \<Rightarrow> (False, w) | b # bs \<Rightarrow> (b, w\<lparr>dreq_in := bs\<rparr>))"

text \<open>\<open>while(!digitalRead(MP3_DREQ));\<close> returns after the first high sample and never
  returns when there is none.\<close>

definition wait_DREQ :: "world \<Rightarrow> unit result" where
  "wait_DREQ w =
     (case dropWhile Not (dreq_in w) of
        [] \<Rightarrow> Inl Hang
      | b # bs \<Rightarrow> Inr ((), w\<lparr>dreq_in := bs\<rparr>))"

definition cs_low :: "bool \<Rightarrow> world \<Rightarrow> world" where
  "cs_low toWrite w = w\<lparr>bus_log := CsLow toWrite # bus_log w\<rparr>"

definition cs_high :: "world \<Rightarrow> world" where
  "cs_high w = w\<lparr>bus_log := CsHigh # bus_log w\<rparr>"

definition dcs_low :: "bool \<Rightarrow> world \<Rightarrow> world" where
  "dcs_low toWrite w = w\<lparr>bus_log := DcsLow toWrite # bus_log w\<rparr>"

definition dcs_high :: "world \<Rightarrow> world" where
  "dcs_high w = w\<lparr>bus_log := DcsHigh # bus_log w\<rparr>"

text \<open>\<open>SPI.transfer(b)\<close>: the chip answers from what it has seen so far.\<close>

definition SPI_transfer :: "env \<Rightarrow> u8 \<Rightarrow> world \<Rightarrow> u8 \<times> world" where
  "SPI_transfer E b w = (chip E (bus_log w), w\<lparr>bus_log := Xfer b # bus_log w\<rparr>)"

definition SPI_send :: "u8 \<Rightarrow> world \<Rightarrow> world" where
  "SPI_send b w = w\<lparr>bus_log := Xfer b # bus_log w\<rparr>"

definition enableRefill :: "bool \<Rightarrow> world \<Rightarrow> world" where
  "enableRefill isRecording w =
     (if isRecording then w\<lparr>ogg_refill_enabled := True\<rparr> else w\<lparr>refill_enabled := True\<rparr>)"

definition disableRefill :: "bool \<Rightarrow> world \<Rightarrow> world" where
  "disableRefill isRecording w =
     (if isRecording then w\<lparr>ogg_refill_enabled := False\<rparr> else w\<lparr>refill_enabled := False\<rparr>)"

text \<open>\<open>union twobyte\<close>: \<open>byte[1]\<close> is the high byte of \<open>word\<close>, \<open>byte[0]\<close> the low one.\<close>

definition byte1 :: "u16 \<Rightarrow> u8" where
  "byte1 v = ucast (drop_bit 8 v)"

definition byte0 :: "u16 \<Rightarrow> u8" where
  "byte0 v = ucast v"

definition twobyte :: "u8 \<Rightarrow> u8 \<Rightarrow> u16" where
  "twobyte hi lo = push_bit 8 (ucast hi) OR ucast lo"

section \<open>Register access\<close>

text \<open>\<open>Mp3WriteRegister(address, msb, lsb)\<close>.  The parameter \<open>rf\<close> is \<open>refill\<close>,
  which the function calls to resume the data stream.\<close>

definition Mp3WriteRegister3 ::
  "(world \<Rightarrow> unit result) \<Rightarrow> u8 \<Rightarrow> u8 \<Rightarrow> u8 \<Rightarrow> world \<Rightarrow> unit result" where
  "Mp3WriteRegister3 rf address msb lsb w =
     (if \<not> reset_pin w then Inr ((), w)
      else
        andThen (wait_DREQ (if playing_state w = playback then disableRefill False w else w))
          (\<lambda>_ w1.
             let w2 = cs_high (SPI_send lsb (SPI_send msb (SPI_send address
                        (SPI_send 0x02 (cs_low True w1)))))
             in if playing_state w2 = playback
                then andThen (rf w2) (\<lambda>_ w3. Inr ((), enableRefill False w3))
                else Inr ((), w2)))"

definition Mp3WriteRegister ::
  "(world \<Rightarrow> unit result) \<Rightarrow> u8 \<Rightarrow> u16 \<Rightarrow> world \<Rightarrow> unit result" where
  "Mp3WriteRegister rf address data = Mp3WriteRegister3 rf address (byte1 data) (byte0 data)"

definition Mp3ReadRegister ::
  "env \<Rightarrow> (world \<Rightarrow> unit result) \<Rightarrow> u8 \<Rightarrow> world \<Rightarrow> u16 result" where
  "Mp3ReadRegister E rf address w =
     (if \<not> reset_pin w then Inr (0, w)
      else
        andThen (wait_DREQ (if playing_state w = playback then disableRefill False w else w))
          (\<lambda>_ w1.
             let w2 = SPI_send address (SPI_send 0x03 (cs_low False w1));
                 (msb, w3) = SPI_transfer E 0xFF w2;
                 (lsb, w4) = SPI_transfer E 0xFF w3;
                 w5 = cs_high w4
             in if playing_state w5 = playback
                then andThen (rf w5) (\<lambda>_ w6. Inr (twobyte msb lsb, enableRefill False w6))
                else Inr (twobyte msb lsb, w5)))"

text \<open>\<open>Mp3ReadWRAM(address, is32bit)\<close> and \<open>Mp3WriteWRAM(address, data, is32bit)\<close>.\<close>

definition Mp3ReadWRAM ::
  "env \<Rightarrow> (world \<Rightarrow> unit result) \<Rightarrow> u16 \<Rightarrow> bool \<Rightarrow> world \<Rightarrow> u32 result" where
  "Mp3ReadWRAM E rf address is32bit w =
     (if \<not> is32bit then
        andThen (Mp3WriteRegister rf (SCI_WRAMADDR E) address w) (\<lambda>_ w1.
        andThen (Mp3ReadRegister E rf (SCI_WRAM E) w1) (\<lambda>v w2. Inr (ucast v, w2)))
      else
        andThen (Mp3WriteRegister rf (SCI_WRAMADDR E) (address + 1) w) (\<lambda>_ w1.
        andThen (Mp3ReadRegister E rf (SCI_WRAM E) w1) (\<lambda>msb w2.
        andThen (Mp3WriteRegister rf (SCI_WRAMADDR E) address w2) (\<lambda>_ w3.
        andThen (Mp3ReadRegister E rf (SCI_WRAM E) w3) (\<lambda>lsb w4.
        andThen (Mp3ReadRegister E rf (SCI_WRAM E) w4) (\<lambda>msb2 w5.
          Inr (push_bit 16 (ucast (if lsb < 0x8000 then msb2 else msb)) OR ucast lsb,
               w5)))))))"

definition Mp3WriteWRAM ::
  "env \<Rightarrow> (world \<Rightarrow> unit result) \<Rightarrow> u16 \<Rightarrow> u32 \<Rightarrow> bool \<Rightarrow> world \<Rightarrow> unit result" where
  "Mp3WriteWRAM E rf address data is32bit w =
     andThen (Mp3WriteRegister rf (SCI_WRAMADDR E) address w) (\<lambda>_ w1.
       if \<not> is32bit then Mp3WriteRegister rf (SCI_WRAM E) (ucast data) w1
       else
         andThen (Mp3WriteRegister rf (SCI_WRAM E) (ucast (data AND 0x0000FFFF)) w1) (\<lambda>_ w2.
           Mp3WriteRegister rf (SCI_WRAM E) (ucast (drop_bit 16 data)) w2))"

section \<open>Storage\<close>

text \<open>Modelled from the spec: the operations of the storage collaborator (section 6),
  with SdFat's conventions.  \<open>read(buf, n)\<close> returns the number of bytes it delivered,
  0 at the end of the file and -1 on a closed handle; \<open>read()\<close> returns the next byte
  or -1; a seek fails on a closed handle and beyond the end of the file; \<open>open\<close>
  fails on a handle that is open, on a missing file that is not to be created, and
  for writing on a card that refuses writes.\<close>

definition sd_read :: "nat \<Rightarrow> sdfile \<Rightarrow> int \<times> u8 list \<times> sdfile" where
  "sd_read n f =
     (if \<not> fopen f then (- 1, [], f)
      else let bs = take n (drop (fpos f) (fdata f))
           in (int (length bs), bs, f\<lparr>fpos := fpos f + length bs\<rparr>))"

definition sd_seekSet :: "u32 \<Rightarrow> sdfile \<Rightarrow> bool \<times> sdfile" where
  "sd_seekSet p f =
     (if fopen f \<and> unat p \<le> length (fdata f) then (True, f\<lparr>fpos := unat p\<rparr>)
      else (False, f))"

definition curPosition :: "world \<Rightarrow> u32" where
  "curPosition w = of_nat (fpos (track w))"

text \<open>\<open>track.read(mp3DataBuffer, n)\<close>: the bytes land at the start of the buffer;
  delivering more than the buffer holds is a write past its end.\<close>

definition track_read_buffer :: "nat \<Rightarrow> world \<Rightarrow> int result" where
  "track_read_buffer n w =
     (let (r, bs, f) = sd_read n (track w)
      in if length bs > length (mp3DataBuffer w) then Inl OutOfBounds
         else Inr (r, w\<lparr>mp3DataBuffer := bs @ drop (length bs) (mp3DataBuffer w),
                          track := f, sd_log := OpRead n # sd_log w\<rparr>))"

text \<open>\<open>track.read()\<close>: one byte, or -1.\<close>

definition track_read_byte :: "world \<Rightarrow> int \<times> world" where
  "track_read_byte w =
     (let (r, bs, f) = sd_read 1 (track w)
      in (if r = 1 then uint (hd bs) else - 1, w\<lparr>track := f, sd_log := OpReadByte # sd_log w\<rparr>))"

definition track_seekSet :: "u32 \<Rightarrow> world \<Rightarrow> bool \<times> world" where
  "track_seekSet p w =
     (let (ok, f) = sd_seekSet p (track w)
      in (ok, w\<lparr>track := f, sd_log := OpSeekSet p # sd_log w\<rparr>))"

definition track_seekCur :: "int \<Rightarrow> world \<Rightarrow> bool \<times> world" where
  "track_seekCur off w =
     (let (ok, f) = sd_seekSet (curPosition w + of_int off) (track w)
      in (ok, w\<lparr>track := f, sd_log := OpSeekCur off # sd_log w\<rparr>))"

definition track_seekEnd :: "world \<Rightarrow> bool \<times> world" where
  "track_seekEnd w =
     (let (ok, f) = sd_seekSet (of_nat (length (fdata (track w)))) (track w)
      in (ok, w\<lparr>track := f, sd_log := OpSeekEnd # sd_log w\<rparr>))"

definition track_close :: "world \<Rightarrow> world" where
  "track_close w = w\<lparr>track := (track w)\<lparr>fopen := False\<rparr>, sd_log := OpClose # sd_log w\<rparr>"

definition track_open :: "string \<Rightarrow> bool \<Rightarrow> world \<Rightarrow> bool \<times> world" where
  "track_open name forWrite w =
     (let w1 = w\<lparr>sd_log := OpOpen name forWrite # sd_log w\<rparr>
      in if fopen (track w) \<or> (forWrite \<and> sd_readonly w) then (False, w1)
         else case map_of (sd_files w) name of
                Some d \<Rightarrow> (True, w1\<lparr>track := \<lparr>fopen = True, fdata = d, fpos = 0\<rparr>\<rparr>)
              | None \<Rightarrow>
                  if forWrite
                  then (True, w1\<lparr>sd_files := (name, []) # sd_files w,
                                   track := \<lparr>fopen = True, fdata = [], fpos = 0\<rparr>\<rparr>)
                  else (False, w1))"

section \<open>Feeding the data channel\<close>

text \<open>\<open>for (i = 0; i < 32; i++) SPI.transfer(mp3DataBuffer[bufferOffset + i]);\<close>\<close>

definition feed_buffer32 :: "world \<Rightarrow> unit result" where
  "feed_buffer32 w =
     (if unat (bufferOffset w) + 32 \<le> length (mp3DataBuffer w)
      then Inr ((), fold (\<lambda>i. SPI_send (mp3DataBuffer w ! (unat (bufferOffset w) + i)))
                         [0..<32] w)
      else Inl OutOfBounds)"

text \<open>\<open>fillEnd(fillingByte)\<close>: 2052 rounds, each after a wait for DREQ, of 32 bytes.\<close>

primrec fillEnd_loop :: "nat \<Rightarrow> u8 \<Rightarrow> world \<Rightarrow> unit result" where
  "fillEnd_loop 0 fillingByte w = Inr ((), w)"
| "fillEnd_loop (Suc n) fillingByte w =
     andThen (wait_DREQ w) (\<lambda>_ w1.
       fillEnd_loop n fillingByte ((SPI_send fillingByte ^^ 32) w1))"

definition fillEnd :: "u8 \<Rightarrow> world \<Rightarrow> unit result" where
  "fillEnd fillingByte w =
     andThen (fillEnd_loop 2052 fillingByte (dcs_low True w)) (\<lambda>_ w1. Inr ((), dcs_high w1))"

section \<open>The cancel handshake\<close>

text \<open>The \<open>fillTrack\<close> branch of one round of \<open>cancelDecoding\<close>.  First the block
  under \<open>/* Read data */\<close>: refill the buffer when it is used up, with the chip's
  end-fill byte once the track has ended (the flag \<open>getFilling\<close> is never set, so the
  byte is fetched each time).  The result is the filling byte, which the block may
  have replaced.\<close>

definition cancel_read_data ::
  "env \<Rightarrow> (world \<Rightarrow> unit result) \<Rightarrow> u8 \<Rightarrow> world \<Rightarrow> u8 result" where
  "cancel_read_data E rf fillingByte w =
     (if unat (bufferOffset w) = BUFFER_SIZE E then
        andThen (track_read_buffer (BUFFER_SIZE E) w) (\<lambda>r w1.
        andThen
          (if r = 0 then
             andThen (Mp3ReadWRAM E rf (para_endFillByte E) False w1) (\<lambda>data w2.
               let fb = (ucast ((ucast data :: u16) AND 0x00FF) :: u8)
               in Inr (fb, w2\<lparr>mp3DataBuffer := replicate (BUFFER_SIZE E) fb\<rparr>))
           else Inr (fillingByte, w1))
          (\<lambda>fb w3. Inr (fb, w3\<lparr>bufferOffset := 0\<rparr>)))
      else Inr (fillingByte, w))"

text \<open>Then the feed of 32 bytes from the buffer.\<close>

definition cancel_feed_track ::
  "env \<Rightarrow> (world \<Rightarrow> unit result) \<Rightarrow> u8 \<Rightarrow> world \<Rightarrow> u8 result" where
  "cancel_feed_track E rf fillingByte w =
     andThen (cancel_read_data E rf fillingByte w) (\<lambda>fb w4.
       andThen (feed_buffer32 (dcs_low True w4)) (\<lambda>_ w5.
         Inr (fb, (dcs_high w5)\<lparr>bufferOffset := bufferOffset w5 + 32\<rparr>)))"

text \<open>The \<open>for (i = 0; i < 64; i++)\<close> loop of \<open>cancelDecoding\<close>, by the number of
  rounds left; the result is \<open>isCancelled\<close>.\<close>

primrec cancel_loop ::
  "env \<Rightarrow> (world \<Rightarrow> unit result) \<Rightarrow> bool \<Rightarrow> nat \<Rightarrow> u8 \<Rightarrow> world \<Rightarrow> bool result" where
  "cancel_loop E rf fillTrack 0 fillingByte w = Inr (False, w)"
| "cancel_loop E rf fillTrack (Suc n) fillingByte w =
     andThen (wait_DREQ w) (\<lambda>_ w1.
     andThen
       (if fillTrack then cancel_feed_track E rf fillingByte w1
        else Inr (fillingByte, dcs_high ((SPI_send fillingByte ^^ 32) (dcs_low True w1))))
       (\<lambda>fb w2.
     andThen (Mp3ReadRegister E rf (SCI_MODE E) w2) (\<lambda>m w3.
       if m AND SM_CANCEL E = 0 then Inr (True, w3)
       else cancel_loop E rf fillTrack n fb w3)))"

definition cancelDecoding ::
  "env \<Rightarrow> (world \<Rightarrow> unit result) \<Rightarrow> bool \<Rightarrow> u8 \<Rightarrow> world \<Rightarrow> unit result" where
  "cancelDecoding E rf fillTrack fillingByte w =
     andThen (Mp3ReadRegister E rf (SCI_MODE E) w) (\<lambda>m w1.
     andThen (Mp3WriteRegister rf (SCI_MODE E) (m OR SM_CANCEL E) w1) (\<lambda>_ w2.
     andThen (cancel_loop E rf fillTrack 64 fillingByte w2) (\<lambda>isCancelled w3.
       if \<not> isCancelled then
         andThen (Mp3ReadRegister E rf (SCI_MODE E) w3) (\<lambda>m' w4.
         andThen (Mp3WriteRegister rf (SCI_MODE E) (m' OR SM_RESET E) w4) (\<lambda>_ w5.
           Inr ((), w5\<lparr>isPatched := False\<rparr>)))
       else Inr ((), w3))))"

section \<open>The playback refill\<close>

text \<open>The part of the loop body of \<open>refill\<close> after the buffer has been read: the
  \<open>cancelling\<close> and \<open>skipping\<close> branches, the feed of 32 bytes, and the read of the
  decode time at the end of a chunk.  The result says whether the loop goes on
  (\<open>continue\<close> or the end of the body) or stops (\<open>break\<close>).  \<open>cancelDecoding(true)\<close>
  leaves its second argument to the header's default; with \<open>fillTrack\<close> set the
  function overwrites it before the first use, so the model passes 0.\<close>

definition refill_feed :: "env \<Rightarrow> world \<Rightarrow> bool result" where
  "refill_feed E w =
     andThen (feed_buffer32 (dcs_low True w)) (\<lambda>_ w1.
       let w2 = dcs_high (w1\<lparr>bufferOffset := bufferOffset w1 + 32\<rparr>)
       in if unat (bufferOffset w2) = BUFFER_SIZE E then
            let w3 = SPI_send (SCI_DECODE_TIME E) (SPI_send 0x03 (cs_low False w2));
                (hi, w4) = SPI_transfer E 0xFF w3;
                (lo, w5) = SPI_transfer E 0xFF w4
            in Inr (True, (cs_high w5)\<lparr>position := ucast (twobyte hi lo)\<rparr>)
          else Inr (True, w2))"

definition refill_after_read ::
  "env \<Rightarrow> (world \<Rightarrow> unit result) \<Rightarrow> world \<Rightarrow> bool result" where
  "refill_after_read E rf w =
     (if playing_state w = cancelling then
        andThen (cancelDecoding E rf True 0 (disableRefill False w)) (\<lambda>_ w1.
        andThen (Mp3ReadWRAM E rf (para_endFillByte E) False w1) (\<lambda>data w2.
        andThen (fillEnd (ucast ((ucast data :: u16) AND 0x00FF)) w2) (\<lambda>_ w3.
          Inr (False, (track_close w3)\<lparr>playing_state := ready\<rparr>))))
      else if playing_state w = skipping \<and> \<not> isSkipping w then
        if position w > ucast (skipToPosition w) then
          andThen (cancelDecoding E rf True 0 w) (\<lambda>_ w1.
          andThen (Mp3ReadWRAM E rf (para_endFillByte E) False w1) (\<lambda>data w2.
          andThen (fillEnd (ucast ((ucast data :: u16) AND 0x00FF)) w2) (\<lambda>_ w3.
          andThen (Mp3WriteRegister rf (SCI_DECODE_TIME E) 0
                     ((snd (track_seekSet 0 w3))\<lparr>bufferOffset := of_nat (BUFFER_SIZE E)\<rparr>))
            (\<lambda>_ w4.
          andThen (Mp3WriteRegister rf (SCI_DECODE_TIME E) 0 w4) (\<lambda>_ w5.
            Inr (True, w5\<lparr>position := 0\<rparr>))))))
        else
          andThen (Mp3WriteRegister3 rf (SCI_VOL E) 0xFE 0xFE w) (\<lambda>_ w1.
          andThen (Mp3WriteWRAM E rf (para_playSpeed E) (SKIPPING_SPEED E) False w1) (\<lambda>_ w2.
            refill_feed E (w2\<lparr>isSkipping := True\<rparr>)))
      else refill_feed E w)"

text \<open>One pass through the loop body.  At the end of the track the engine itself
  goes through \<open>cancelling\<close> to \<open>ready\<close> and closes the file.\<close>

definition refill_step :: "env \<Rightarrow> (world \<Rightarrow> unit result) \<Rightarrow> world \<Rightarrow> bool result" where
  "refill_step E rf w =
     (if unat (bufferOffset w) = BUFFER_SIZE E then
        andThen (track_read_buffer (BUFFER_SIZE E) w) (\<lambda>r w1.
          if r = 0 then
            andThen (Mp3ReadWRAM E rf (para_endFillByte E) False
                       (disableRefill False
                          (w1\<lparr>position := ucast (duration w1), playing_state := cancelling\<rparr>)))
              (\<lambda>data w2.
            andThen (fillEnd (ucast ((ucast data :: u16) AND 0x00FF)) w2) (\<lambda>_ w3.
            andThen (cancelDecoding E rf False (ucast ((ucast data :: u16) AND 0x00FF)) w3)
              (\<lambda>_ w4. Inr (False, (track_close w4)\<lparr>playing_state := ready\<rparr>))))
          else refill_after_read E rf (w1\<lparr>bufferOffset := 0\<rparr>))
      else refill_after_read E rf w)"

text \<open>\<open>while (digitalRead(MP3_DREQ)) { ... }\<close>, by the number of passes left.  Every
  pass takes a sample of DREQ, so a budget of as many passes as there are samples is
  never used up; \<open>OutOfFuel\<close> marks the case that it were.\<close>

primrec refill_loop :: "env \<Rightarrow> (world \<Rightarrow> unit result) \<Rightarrow> nat \<Rightarrow> world \<Rightarrow> unit result" where
  "refill_loop E rf 0 w =
     (case digitalRead_DREQ w of
        (True, w1) \<Rightarrow> Inl OutOfFuel
      | (False, w1) \<Rightarrow> Inr ((), w1))"
| "refill_loop E rf (Suc k) w =
     (case digitalRead_DREQ w of
        (True, w1) \<Rightarrow>
          andThen (refill_step E rf w1) (\<lambda>go w2.
            if go then refill_loop E rf k w2 else Inr ((), w2))
      | (False, w1) \<Rightarrow> Inr ((), w1))"

text \<open>The whole of \<open>refill\<close>: the loop, then the check whether a skip is done.\<close>

definition refill_body :: "env \<Rightarrow> (world \<Rightarrow> unit result) \<Rightarrow> world \<Rightarrow> unit result" where
  "refill_body E rf w =
     andThen (refill_loop E rf (length (dreq_in w)) w) (\<lambda>_ w1.
       if isSkipping w1 \<and> position w1 \<ge> ucast (skipToPosition w1) then
         andThen (Mp3WriteWRAM E rf (para_playSpeed E) 0x0001 False w1) (\<lambda>_ w2.
         andThen (Mp3WriteRegister3 rf (SCI_VOL E) (VolL w2) (VolR w2) w2) (\<lambda>_ w3.
           Inr ((), w3\<lparr>isSkipping := False, playing_state := playback\<rparr>)))
       else Inr ((), w1))"

text \<open>\<open>refill\<close> and the register access call each other (a register access in state
  \<open>playback\<close> resumes the stream with \<open>refill\<close>).  The recursion is tied off by its
  depth; every level waits for DREQ before it calls the next, so a depth of one more
  than the number of samples is enough.\<close>

primrec refill_fuel :: "env \<Rightarrow> nat \<Rightarrow> world \<Rightarrow> unit result" where
  "refill_fuel E 0 w = Inl OutOfFuel"
| "refill_fuel E (Suc n) w = refill_body E (refill_fuel E n) w"

definition refill :: "env \<Rightarrow> world \<Rightarrow> unit result" where
  "refill E w = refill_fuel E (Suc (length (dreq_in w))) w"

section \<open>State queries, pause and resume\<close>

definition isBusy :: "world \<Rightarrow> u8" where
  "isBusy w =
     (if \<not> reset_pin w then 0xFF
      else case playing_state w of
             playback \<Rightarrow> 0x01
           | paused_playback \<Rightarrow> 0x01
           | recording \<Rightarrow> 0x02
           | cancelling \<Rightarrow> 0x03
           | skipping \<Rightarrow> 0x03
           | finishing \<Rightarrow> 0x04
           | _ \<Rightarrow> 0x00)"

definition pauseMusic :: "world \<Rightarrow> world" where
  "pauseMusic w =
     (if playing_state w \<noteq> playback \<or> \<not> reset_pin w then w
      else (disableRefill False w)\<lparr>playing_state := paused_playback\<rparr>)"

definition resumeMusic :: "env \<Rightarrow> u32 \<Rightarrow> world \<Rightarrow> u8 result" where
  "resumeMusic E timecode w =
     (if playing_state w \<noteq> paused_playback \<or> \<not> reset_pin w then Inr (1, w)
      else
        andThen
          (if timecode \<noteq> 0xFFFFFFFF then
             andThen (Mp3ReadWRAM E (refill E) (para_byteRate E) False w) (\<lambda>byteRate w1.
               Inr (track_seekSet (timecode * byteRate div 1000 + start_of_music w1) w1))
           else Inr (True, w))
          (\<lambda>ok w2.
             if \<not> ok then Inr (2, w2)
             else Inr (0, (enableRefill False w2)\<lparr>playing_state := playback\<rparr>)))"

definition stop :: "world \<Rightarrow> world" where
  "stop w =
     (if isBusy w \<noteq> 0x01 then w
      else let isPaused = (playing_state w = paused_playback);
               w1 = w\<lparr>playing_state := cancelling\<rparr>
           in if isPaused then enableRefill False w1 else w1)"

section \<open>Volume and flush\<close>

definition setVolume :: "env \<Rightarrow> u8 \<Rightarrow> u8 \<Rightarrow> world \<Rightarrow> unit result" where
  "setVolume E leftchannel rightchannel w =
     Mp3WriteRegister3 (refill E) (SCI_VOL E) leftchannel rightchannel
       (w\<lparr>VolL := leftchannel, VolR := rightchannel\<rparr>)"

text \<open>\<open>for (y = 0; y < n; y++) { while(!digitalRead(MP3_DREQ)); SPI.transfer(b); }\<close>\<close>

primrec send_waiting :: "nat \<Rightarrow> u8 \<Rightarrow> world \<Rightarrow> unit result" where
  "send_waiting 0 b w = Inr ((), w)"
| "send_waiting (Suc n) b w =
     andThen (wait_DREQ w) (\<lambda>_ w1. send_waiting n b (SPI_send b w1))"

definition flush2052 :: "u8 \<Rightarrow> world \<Rightarrow> unit result" where
  "flush2052 b w =
     andThen (send_waiting 2052 b (dcs_low True w)) (\<lambda>_ w1. Inr ((), dcs_high w1))"

text \<open>The \<open>for (n = 0; n < 64; n++)\<close> loop of \<open>flush_cancel\<close>, by the number of rounds
  left; the result says whether the function has returned from inside the loop.\<close>

primrec flush_cancel_loop :: "env \<Rightarrow> flush_m \<Rightarrow> u8 \<Rightarrow> nat \<Rightarrow> world \<Rightarrow> bool result" where
  "flush_cancel_loop E mode endFillByte 0 w = Inr (False, w)"
| "flush_cancel_loop E mode endFillByte (Suc n) w =
     andThen (Mp3ReadRegister E (refill E) (SCI_MODE E) w) (\<lambda>m w1.
     andThen (Mp3WriteRegister (refill E) (SCI_MODE E) (m OR SM_CANCEL E) w1) (\<lambda>_ w2.
     andThen (send_waiting 32 endFillByte (dcs_low True w2)) (\<lambda>_ w3.
     andThen (Mp3ReadRegister E (refill E) (SCI_MODE E) (dcs_high w3)) (\<lambda>m' w4.
       if m' AND SM_CANCEL E = 0 then
         (if mode = pre \<or> mode = both
          then andThen (flush2052 endFillByte w4) (\<lambda>_ w5. Inr (True, w5))
          else Inr (True, w4))
       else flush_cancel_loop E mode endFillByte n w4))))"

definition flush_cancel :: "env \<Rightarrow> flush_m \<Rightarrow> world \<Rightarrow> unit result" where
  "flush_cancel E mode w =
     andThen (Mp3ReadWRAM E (refill E) (para_endFillByte E) False w) (\<lambda>data w1.
       let endFillByte = (ucast ((ucast data :: u16) AND 0x00FF) :: u8)
       in andThen
            (if mode = post \<or> mode = both then flush2052 endFillByte w1 else Inr ((), w1))
            (\<lambda>_ w2.
          andThen (flush_cancel_loop E mode endFillByte 64 w2) (\<lambda>returned w3.
            if returned then Inr ((), w3)
            else
              andThen (Mp3ReadRegister E (refill E) (SCI_MODE E) w3) (\<lambda>m w4.
              andThen (Mp3WriteRegister (refill E) (SCI_MODE E) (m OR SM_RESET E) w4) (\<lambda>_ w5.
                Inr ((), w5\<lparr>isPatched := False\<rparr>))))))"

section \<open>Skipping\<close>

definition skipTo :: "env \<Rightarrow> u32 \<Rightarrow> world \<Rightarrow> u8 result" where
  "skipTo E seconds w =
     (if isBusy w \<noteq> 0x01 then Inr (1, w)
      else if trackFormat w = ogg then
        let isPaused = (playing_state w = paused_playback);
            w1 = (if seconds \<ge> ucast (duration w)
                  then w\<lparr>skipToPosition := duration w, playing_state := cancelling\<rparr>
                  else w\<lparr>skipToPosition := ucast seconds, playing_state := skipping\<rparr>)
        in Inr (0, if isPaused then enableRefill False w1 else w1)
      else
        andThen (Mp3ReadWRAM E (refill E) (para_byteRate E) False
                   ((disableRefill False w)\<lparr>playing_state := paused_playback\<rparr>))
          (\<lambda>byteRate w1.
             let (ok, w2) = track_seekSet (seconds * byteRate + start_of_music w1) w1
             in if \<not> ok then Inr (2, w2)
                else
                  andThen (Mp3WriteRegister3 (refill E) (SCI_VOL E) 0xFE 0xFE w2) (\<lambda>_ w3.
                  andThen (flush_cancel E pre w3) (\<lambda>_ w4.
                  andThen (Mp3WriteRegister (refill E) (SCI_DECODE_TIME E) (ucast seconds) w4)
                    (\<lambda>_ w5.
                  andThen (Mp3WriteRegister (refill E) (SCI_DECODE_TIME E) (ucast seconds) w5)
                    (\<lambda>_ w6.
                  andThen (refill E w6) (\<lambda>_ w7.
                  andThen (setVolume E (VolL w7) (VolR w7) w7) (\<lambda>_ w8.
                    Inr (0, enableRefill False (w8\<lparr>playing_state := playback\<rparr>))))))))))"


section \<open>The frame-header bitrate scan\<close>

definition bitrate_table :: "u16 list list" where
  "bitrate_table =
     [[  0,   0,   0,   0,   0,   0],
      [ 32,  32,  32,  32,   8,   8],
      [ 64,  48,  40,  48,  16,  16],
      [ 96,  56,  48,  56,  24,  24],
      [128,  64,  56,  64,  32,  32],
      [160,  80,  64,  80,  40,  40],
      [192,  96,  80,  96,  48,  48],
      [224, 112,  96, 112,  56,  56],
      [256, 128, 112, 128,  64,  64],
      [288, 160, 128, 144,  80,  80],
      [320, 192, 160, 160,  96,  69],
      [352, 224, 192, 176, 112, 112],
      [384, 256, 224, 192, 128, 128],
      [416, 320, 256, 224, 144, 144],
      [448, 384, 320, 256, 160, 160]]"

text \<open>\<open>pgm_read_word_near(&(bitrate_table[temp][row_num]))\<close>: a value of the table
  when both indices are inside it, nothing otherwise.\<close>

definition bitrate_lookup :: "nat \<Rightarrow> nat \<Rightarrow> u16 option" where
  "bitrate_lookup code row =
     (if code < length bitrate_table \<and> row < length (bitrate_table ! code)
      then Some (bitrate_table ! code ! row) else None)"

text \<open>\<open>uint8_t temp = track.read();\<close> keeps the low eight bits, so -1 becomes 0xFF.\<close>

definition to_u8 :: "int \<Rightarrow> u8" where
  "to_u8 v = word_of_int v"

text \<open>The \<open>for (i = 0; i < 65535; i++)\<close> loop up to the point where a frame header is
  accepted, by the number of passes left: \<open>Some row_num\<close> when the pass goes on to the
  table lookup (after which it leaves the loop by \<open>break\<close>), \<open>None\<close> when all passes
  are used.\<close>

primrec mp3_sync_scan :: "nat \<Rightarrow> u8 \<Rightarrow> world \<Rightarrow> u8 option \<times> world" where
  "mp3_sync_scan 0 row_num w = (None, w)"
| "mp3_sync_scan (Suc n) row_num w =
     (let (b, w1) = track_read_byte w
      in if b = 0xFF then
           let (t, w2) = track_read_byte w1;
               temp = to_u8 t
           in if temp AND 0xE0 = 0xE0 \<and> temp AND 0x06 \<noteq> 0x00 then
                if temp AND 0x08 = 0 then (Some 3, w2)
                else if temp AND 0x06 = 0x04 then (Some (row_num + 1), w2)
                else if temp AND 0x06 = 0x02 then (Some (row_num + 2), w2)
                else mp3_sync_scan n row_num w2
              else mp3_sync_scan n row_num w2
         else mp3_sync_scan n row_num w1)"

text \<open>The rest of the accepting pass: the bitrate code from the next byte, the table
  lookup, the conversion to bytes per millisecond, and the start of the music.\<close>

definition mp3_frame_header :: "u8 \<Rightarrow> world \<Rightarrow> unit result" where
  "mp3_frame_header row_num w =
     (let (t, w1) = track_read_byte w;
          temp = drop_bit 4 (to_u8 t)
      in case bitrate_lookup (unat temp) (unat row_num) of
           None \<Rightarrow> Inl OutOfBounds
         | Some kbps \<Rightarrow>
             let w2 = snd (track_seekCur (- 3) (w1\<lparr>bitrate := kbps div 8\<rparr>))
             in Inr ((), w2\<lparr>start_of_music := curPosition w2\<rparr>))"

definition getBitRateFromMP3File :: "world \<Rightarrow> unit result" where
  "getBitRateFromMP3File w =
     (case mp3_sync_scan 65535 0 (w\<lparr>bitrate := 0\<rparr>) of
        (None, w1) \<Rightarrow> Inr ((), w1)
      | (Some row_num, w1) \<Rightarrow> mp3_frame_header row_num w1)"

section \<open>The OGG duration scan\<close>

definition header1 :: "u8 list" where
  "header1 = [0x01, 0x76, 0x6F, 0x72, 0x62, 0x69, 0x73]"

definition header2 :: "u8 list" where
  "header2 = [0x4F, 0x67, 0x67, 0x53, 0x00, 0x04]"

text \<open>\<open>memcmp(header, &mp3DataBuffer[at], sizeof(header)) == 0\<close>, for a start index
  that may be -1; a comparison that leaves the buffer is a read out of bounds.\<close>

definition buffer_matches :: "u8 list \<Rightarrow> int \<Rightarrow> world \<Rightarrow> bool option" where
  "buffer_matches hdr at w =
     (if 0 \<le> at \<and> nat at + length hdr \<le> length (mp3DataBuffer w)
      then Some (take (length hdr) (drop (nat at) (mp3DataBuffer w)) = hdr)
      else None)"

text \<open>An \<open>int16_t\<close> holding the value of an \<open>int\<close> expression, and the cast
  \<open>(uint16_t)\<close> of one.\<close>

definition to_int16 :: "int \<Rightarrow> int" where
  "to_int16 v = sint (word_of_int v :: u16)"

definition to_uint16 :: "int \<Rightarrow> nat" where
  "to_uint16 v = unat (word_of_int v :: u16)"

text \<open>The \<open>for (i = 0; i < sizeof(mp3DataBuffer); i++)\<close> loop of the first scan, by the
  number of passes left and the index \<open>i\<close>; the result is \<open>offset\<close>.\<close>

primrec header1_for :: "env \<Rightarrow> nat \<Rightarrow> nat \<Rightarrow> world \<Rightarrow> int result" where
  "header1_for E 0 i w = Inr (- 1, w)"
| "header1_for E (Suc k) i w =
     (if i \<ge> length (mp3DataBuffer w) then Inl OutOfBounds
      else if mp3DataBuffer w ! i = 0x76 then
        if i + length header1 - 1 > BUFFER_SIZE E then
          andThen
            (track_read_buffer 16
               (snd (track_seekSet (curPosition w - of_nat (BUFFER_SIZE E) + of_nat i - 1) w)))
            (\<lambda>_ w1.
               case buffer_matches header1 0 w1 of
                 None \<Rightarrow> Inl OutOfBounds
               | Some True \<Rightarrow> Inr (to_int16 (1 + 10), w1)
               | Some False \<Rightarrow> Inr (- 1, w1))
        else
          case buffer_matches header1 (int i - 1) w of
            None \<Rightarrow> Inl OutOfBounds
          | Some True \<Rightarrow> Inr (to_int16 (int i + 10), w)
          | Some False \<Rightarrow> header1_for E k (Suc i) w
      else header1_for E k (Suc i) w)"

text \<open>The fields after the comment-header marker: one byte of channel count and four
  bytes, lowest first, of sample rate, read from \<open>mp3DataBuffer[offset]\<close> to
  \<open>mp3DataBuffer[offset + 4]\<close>.\<close>

definition ogg_header_fields :: "env \<Rightarrow> int \<Rightarrow> world \<Rightarrow> (u8 \<times> u32) result" where
  "ogg_header_fields E offset w =
     andThen
       (if to_uint16 (offset + 4) \<ge> BUFFER_SIZE E then
          andThen
            (track_read_buffer 5
               (snd (track_seekSet (curPosition w - of_nat (BUFFER_SIZE E) + of_int offset) w)))
            (\<lambda>_ w1. Inr (0, w1))
        else Inr (nat offset, w))
       (\<lambda>off w1.
          if off + 4 < length (mp3DataBuffer w1)
          then Inr ((mp3DataBuffer w1 ! off,
                     push_bit 24 (ucast (mp3DataBuffer w1 ! (off + 4)))
                     OR push_bit 16 (ucast (mp3DataBuffer w1 ! (off + 3)))
                     OR push_bit 8 (ucast (mp3DataBuffer w1 ! (off + 2)))
                     OR ucast (mp3DataBuffer w1 ! (off + 1))), w1)
          else Inl OutOfBounds)"

text \<open>The first \<open>while\<close> loop, by the number of passes left; the result is
  \<open>(channelNumber, sampleRate)\<close>, both 0 when the loop ends without a match.  A
  pass that goes on has read at least one byte of the file.\<close>

primrec ogg_header_scan :: "env \<Rightarrow> nat \<Rightarrow> world \<Rightarrow> (u8 \<times> u32) result" where
  "ogg_header_scan E 0 w = Inl OutOfFuel"
| "ogg_header_scan E (Suc n) w =
     andThen (track_read_buffer (BUFFER_SIZE E) w) (\<lambda>r w1.
       if r = 0 then Inr ((0, 0), w1)
       else
         andThen (header1_for E (BUFFER_SIZE E) 0 w1) (\<lambda>offset w2.
           if offset < 0 then ogg_header_scan E n w2
           else ogg_header_fields E offset w2))"

text \<open>The \<open>for\<close> loop of the second scan.\<close>

primrec header2_for :: "env \<Rightarrow> u32 \<Rightarrow> nat \<Rightarrow> nat \<Rightarrow> world \<Rightarrow> int result" where
  "header2_for E readOffset 0 i w = Inr (- 1, w)"
| "header2_for E readOffset (Suc k) i w =
     (if i \<ge> length (mp3DataBuffer w) then Inl OutOfBounds
      else if mp3DataBuffer w ! i = 0x4F then
        if i + length header2 > BUFFER_SIZE E then
          andThen (track_read_buffer 14 (snd (track_seekSet (readOffset + of_nat i) w)))
            (\<lambda>_ w1.
               case buffer_matches header2 0 w1 of
                 None \<Rightarrow> Inl OutOfBounds
               | Some True \<Rightarrow> Inr (to_int16 (0 + 6), w1)
               | Some False \<Rightarrow> Inr (- 1, w1))
        else
          case buffer_matches header2 (int i) w of
            None \<Rightarrow> Inl OutOfBounds
          | Some True \<Rightarrow> Inr (to_int16 (int i + 6), w)
          | Some False \<Rightarrow> header2_for E readOffset k (Suc i) w
      else header2_for E readOffset k (Suc i) w)"

text \<open>The 64-bit absolute sample position, lowest byte first.\<close>

definition ogg_page_fields :: "env \<Rightarrow> int \<Rightarrow> world \<Rightarrow> u64 result" where
  "ogg_page_fields E offset w =
     andThen
       (if to_uint16 (offset + 7) \<ge> BUFFER_SIZE E then
          andThen
            (track_read_buffer 8
               (snd (track_seekSet (curPosition w - of_nat (BUFFER_SIZE E) + of_int offset) w)))
            (\<lambda>_ w1. Inr (0, w1))
        else Inr (nat offset, w))
       (\<lambda>off w1.
          if off + 8 \<le> length (mp3DataBuffer w1)
          then Inr (foldr (\<lambda>b acc. push_bit 8 acc OR ucast b)
                      (take 8 (drop off (mp3DataBuffer w1))) 0, w1)
          else Inl OutOfBounds)"

text \<open>The second \<open>while\<close> loop, by the number of passes left; the result is
  \<open>sampleNumber\<close>, 0 when the loop ends without a match.\<close>

primrec ogg_page_scan :: "env \<Rightarrow> nat \<Rightarrow> world \<Rightarrow> u64 result" where
  "ogg_page_scan E 0 w = Inl OutOfFuel"
| "ogg_page_scan E (Suc n) w =
     (if unat (curPosition w) \<ge> BUFFER_SIZE E then
        andThen (track_read_buffer (BUFFER_SIZE E) w) (\<lambda>_ w1.
        andThen (header2_for E (curPosition w) (BUFFER_SIZE E) 0 w1) (\<lambda>offset w2.
          if offset < 0
          then ogg_page_scan E n
                 (snd (track_seekSet (curPosition w - of_nat (BUFFER_SIZE E)) w2))
          else ogg_page_fields E offset w2))
      else Inr (0, w))"

text \<open>The first half of \<open>getOggInfo\<close>: \<open>track.seekSet(0)\<close> and the forward scan
  for the comment-header marker.  Each pass of the loop moves the file position, so a
  budget of one pass per byte of the file, and one more, is enough.\<close>

definition ogg_comment_header :: "env \<Rightarrow> world \<Rightarrow> (u8 \<times> u32) result" where
  "ogg_comment_header E w =
     ogg_header_scan E (Suc (length (fdata (track w)))) (snd (track_seekSet 0 w))"

text \<open>The second half: \<open>track.seekEnd()\<close>, one buffer back, and the backward scan
  for the page-header marker.\<close>

definition ogg_last_page :: "env \<Rightarrow> world \<Rightarrow> u64 result" where
  "ogg_last_page E w =
     (let w1 = snd (track_seekEnd w)
      in ogg_page_scan E (Suc (length (fdata (track w1))))
           (snd (track_seekSet (curPosition w1 - of_nat (BUFFER_SIZE E)) w1)))"

text \<open>\<open>getOggInfo\<close>: the two scans, the division, the cast to the 16 bits of
  \<open>duration\<close>, and \<open>track.seekSet(0)\<close>.\<close>

definition getOggInfo :: "env \<Rightarrow> world \<Rightarrow> unit result" where
  "getOggInfo E w =
     andThen (ogg_comment_header E w) (\<lambda>(channelNumber, sampleRate) w1.
     andThen (ogg_last_page E w1) (\<lambda>sampleNumber w2.
       if channelNumber = 0 \<or> sampleRate = 0 then Inl DivByZero
       else
         Inr ((), snd (track_seekSet 0
                (w2\<lparr>duration :=
                       ucast (sampleNumber div ucast channelNumber div ucast sampleRate)\<rparr>)))))"

section \<open>Patch and image loading\<close>

text \<open>\<open>track.read(u.byte, 2)\<close> into a \<open>union twobyte\<close>: the first byte read is the
  low byte of \<open>u.word\<close>; a byte the read does not deliver keeps its old value.\<close>

definition read_twobyte :: "u16 \<Rightarrow> world \<Rightarrow> (int \<times> u16) \<times> world" where
  "read_twobyte old w =
     (let (r, bs, f) = sd_read 2 (track w)
      in ((r, case bs of
                [] \<Rightarrow> old
              | [b0] \<Rightarrow> twobyte (byte1 old) b0
              | b0 # b1 # _ \<Rightarrow> twobyte b1 b0),
          w\<lparr>track := f, sd_log := OpRead 2 # sd_log w\<rparr>))"

text \<open>\<open>while (n.word--) Mp3WriteRegister(addr.word, val.word);\<close>\<close>

primrec rle_run :: "env \<Rightarrow> nat \<Rightarrow> u16 \<Rightarrow> u16 \<Rightarrow> world \<Rightarrow> unit result" where
  "rle_run E 0 addr val w = Inr ((), w)"
| "rle_run E (Suc k) addr val w =
     andThen (Mp3WriteRegister (refill E) (ucast addr) val w) (\<lambda>_ w1. rle_run E k addr val w1)"

text \<open>\<open>while (n.word--) { if (!track.read(val.byte, 2)) break; Mp3WriteRegister(...); }\<close>;
  the result is \<open>val\<close> and what the loop leaves in \<open>n.word\<close>.\<close>

primrec copy_run :: "env \<Rightarrow> nat \<Rightarrow> u16 \<Rightarrow> u16 \<Rightarrow> world \<Rightarrow> (u16 \<times> u16) result" where
  "copy_run E 0 addr val w = Inr ((val, 0xFFFF), w)"
| "copy_run E (Suc k) addr val w =
     (let ((r, val'), w1) = read_twobyte val w
      in if r = 0 then Inr ((val', of_nat k), w1)
         else andThen (Mp3WriteRegister (refill E) (ucast addr) val' w1)
                (\<lambda>_ w2. copy_run E k addr val' w2))"

text \<open>The \<open>while(1)\<close> loop of \<open>VSLoadUserCode\<close>, by the number of passes left.  A pass
  that goes on has read from the file twice with success.  The three unions are
  locals without an initial value; the model starts them at 0.\<close>

primrec load_records :: "env \<Rightarrow> nat \<Rightarrow> u16 \<Rightarrow> u16 \<Rightarrow> u16 \<Rightarrow> world \<Rightarrow> unit result" where
  "load_records E 0 addr n val w = Inl OutOfFuel"
| "load_records E (Suc fuel) addr n val w =
     (let ((r1, addr'), w1) = read_twobyte addr w
      in if r1 = 0 then Inr ((), w1)
         else
           let ((r2, n'), w2) = read_twobyte n w1
           in if r2 = 0 then Inr ((), w2)
              else if n' AND 0x8000 \<noteq> 0 then
                let ((r3, val'), w3) = read_twobyte val w2
                in if r3 = 0 then Inr ((), w3)
                   else andThen (rle_run E (unat (n' AND 0x7FFF)) addr' val' w3)
                          (\<lambda>_ w4. load_records E fuel addr' 0xFFFF val' w4)
              else
                andThen (copy_run E (unat n') addr' val w2)
                  (\<lambda>(val', n'') w3. load_records E fuel addr' n'' val' w3))"

definition VSLoadUserCode :: "env \<Rightarrow> string \<Rightarrow> world \<Rightarrow> u8 result" where
  "VSLoadUserCode E fileName w =
     (if \<not> reset_pin w then Inr (3, w)
      else if isBusy w \<noteq> 0 then Inr (1, w)
      else if \<not> reset_pin w then Inr (3, w)
      else
        let (ok, w1) = track_open fileName False w
        in if \<not> ok then Inr (2, w1)
           else andThen (load_records E (Suc (length (fdata (track w1)))) 0 0 0 w1)
                  (\<lambda>_ w2. Inr (0, track_close w2)))"

text \<open>\<open>track.read(temp, n)\<close> into the local array \<open>temp[5]\<close>.\<close>

definition read_temp :: "nat \<Rightarrow> u8 list \<Rightarrow> world \<Rightarrow> (int \<times> u8 list) \<times> world" where
  "read_temp n temp w =
     (let (r, bs, f) = sd_read n (track w)
      in ((r, bs @ drop (length bs) temp), w\<lparr>track := f, sd_log := OpRead n # sd_log w\<rparr>))"

text \<open>\<open>while (n > 0) { if (!track.read(temp, 2)) break; Mp3WriteRegister(SCI_WRAM, ...);
  n--; }\<close>; the result is what is left of \<open>n\<close>, and \<open>temp\<close>.\<close>

primrec image_words :: "env \<Rightarrow> nat \<Rightarrow> u8 list \<Rightarrow> world \<Rightarrow> (nat \<times> u8 list) result" where
  "image_words E 0 temp w = Inr ((0, temp), w)"
| "image_words E (Suc k) temp w =
     (let ((r, temp'), w1) = read_temp 2 temp w
      in if r = 0 then Inr ((Suc k, temp'), w1)
         else andThen (Mp3WriteRegister (refill E) (SCI_WRAM E) (twobyte (temp' ! 0) (temp' ! 1)) w1)
                (\<lambda>_ w2. image_words E k temp' w2))"

definition image_offsets :: "u16 list" where
  "image_offsets = [0x8000, 0x0, 0x4000]"

text \<open>The \<open>while (1)\<close> loop of \<open>VSLoadImage\<close>, by the number of passes left; the result
  is \<open>(result, *address)\<close>.\<close>

primrec image_records :: "env \<Rightarrow> nat \<Rightarrow> u8 list \<Rightarrow> world \<Rightarrow> (u8 \<times> u16) result" where
  "image_records E 0 temp w = Inl OutOfFuel"
| "image_records E (Suc fuel) temp w =
     (let ((r, temp'), w1) = read_temp 5 temp w
      in if r = 0 then Inr ((2, 0xFFFF), w1)
         else
           let n = drop_bit 1 (twobyte (temp' ! 1) (temp' ! 2));
               addr = twobyte (temp' ! 3) (temp' ! 4)
           in if temp' ! 0 \<ge> 4 then Inr ((2, 0xFFFF), w1)
              else if temp' ! 0 = 3 then Inr ((0, addr), w1)
              else
                andThen (Mp3WriteRegister (refill E) (SCI_WRAMADDR E)
                           (addr + image_offsets ! unat (temp' ! 0)) w1) (\<lambda>_ w2.
                andThen (image_words E (unat n) temp' w2) (\<lambda>(left, temp'') w3.
                  if left \<noteq> 0 then Inr ((2, 0xFFFF), w3)
                  else image_records E fuel temp'' w3)))"

text \<open>\<open>VSLoadImage(fileName, &address)\<close>; the result is the return value and
  \<open>*address\<close>.\<close>

definition VSLoadImage :: "env \<Rightarrow> string \<Rightarrow> world \<Rightarrow> (u8 \<times> u16) result" where
  "VSLoadImage E fileName w =
     (if \<not> reset_pin w then Inr ((3, 0xFFFF), w)
      else if isBusy w \<noteq> 0 then Inr ((1, 0xFFFF), w)
      else if \<not> reset_pin w then Inr ((3, 0xFFFF), w)
      else
        let (ok, w1) = track_open fileName False w
        in if \<not> ok then Inr ((2, 0xFFFF), w1)
           else
             let ((r, temp), w2) = read_temp 3 [0, 0, 0, 0, 0] w1
             in if r = 0 \<or> temp ! 0 \<noteq> 0x50 \<or> temp ! 1 \<noteq> 0x26 \<or> temp ! 2 \<noteq> 0x48
                then Inr ((2, 0xFFFF), track_close w2)
                else andThen (image_records E (Suc (length (fdata (track w2)))) temp w2)
                       (\<lambda>res w3. Inr (res, track_close w3)))"

section \<open>Track format\<close>

definition lower_char :: "char \<Rightarrow> char" where
  "lower_char c =
     (if (65::nat) \<le> of_char c \<and> of_char c \<le> (90::nat)
      then char_of (of_char c + (32::nat)) else c)"

text \<open>\<open>strstr(hay, needle) != NULL\<close>\<close>

definition strstr_found :: "string \<Rightarrow> string \<Rightarrow> bool" where
  "strstr_found hay needle =
     list_ex (\<lambda>i. take (length needle) (drop i hay) = needle) [0..<Suc (length hay)]"

text \<open>\<open>getTrackFormat(filename)\<close>.  \<open>len\<close> is a \<open>uint8_t\<close>; with fewer than four
  characters \<open>filename + (len - 4)\<close> points in front of the string.\<close>

definition getTrackFormat :: "string \<Rightarrow> fault + format_m" where
  "getTrackFormat filename =
     (let len = length filename mod 256
      in if len < 4 then Inl OutOfBounds
         else
           let tail = map lower_char (drop (len - 4) filename)
           in Inr (if strstr_found tail ''.mp3'' then mp3
                   else if strstr_found tail ''.aac'' then aac
                   else if strstr_found tail ''.wma'' then wma
                   else if strstr_found tail ''.wav'' then wav
                   else if strstr_found tail ''.fla'' then fla
                   else if strstr_found tail ''.mid'' then mid
                   else if strstr_found tail ''.ogg'' then ogg
                   else unknownFormat))"

section \<open>Starting playback and recording\<close>

definition play :: "env \<Rightarrow> string \<Rightarrow> u32 \<Rightarrow> world \<Rightarrow> u8 result" where
  "play E fileName timecode w =
     (if isBusy w \<noteq> 0 then Inr (1, w)
      else
        andThen
          (if \<not> isPatched w
           then andThen (VSLoadUserCode E ''patches.053'' w)
                  (\<lambda>_ w1. Inr ((), w1\<lparr>isPatched := True\<rparr>))
           else Inr ((), w))
          (\<lambda>_ w1.
             let (ok, w2) = track_open fileName False w1
             in if \<not> ok then Inr (2, w2)
                else
                  case getTrackFormat fileName of
                    Inl e \<Rightarrow> Inl e
                  | Inr fmt \<Rightarrow>
                      let w3 = w2\<lparr>trackFormat := fmt,
                                   bufferOffset := of_nat (BUFFER_SIZE E),
                                   isSkipping := False, start_of_music := 0, duration := 0\<rparr>
                      in andThen
                           (if fmt = ogg then getOggInfo E w3
                            else if fmt = mp3 then
                              andThen (getBitRateFromMP3File w3) (\<lambda>_ w4.
                                if timecode > 0
                                then Inr ((), snd (track_seekSet
                                       (timecode * ucast (bitrate w4) + start_of_music w4) w4))
                                else Inr ((), w4))
                            else Inr ((), w3))
                           (\<lambda>_ w5.
                         andThen (Mp3WriteRegister (refill E) (SCI_DECODE_TIME E) 0 w5) (\<lambda>_ w6.
                         andThen (Mp3WriteRegister (refill E) (SCI_DECODE_TIME E) 0 w6) (\<lambda>_ w7.
                         andThen (refill E (w7\<lparr>playing_state := playback\<rparr>)) (\<lambda>_ w8.
                           Inr (0, enableRefill False w8)))))))"

text \<open>\<open>recordOgg(fileName, profileName, isStereo)\<close>, in the steps its comment
  lists.  Steps 1 and 2: back up the three registers, raise the clock, clear the bass
  register, soft reset, and disable the interrupts except SCI.\<close>

definition recordOgg_prepare :: "env \<Rightarrow> world \<Rightarrow> unit result" where
  "recordOgg_prepare E w =
     andThen (Mp3ReadRegister E (refill E) (SCI_CLOCKF E) (w\<lparr>playing_state := loading\<rparr>))
       (\<lambda>b0 w1.
     andThen (Mp3ReadRegister E (refill E) (SCI_BASS E) w1) (\<lambda>b1 w2.
     andThen (Mp3ReadRegister E (refill E) (SCI_MODE E) w2) (\<lambda>b2 w3.
     andThen (Mp3WriteRegister (refill E) (SCI_CLOCKF E) 0xC000
                (w3\<lparr>registers_backup := [b0, b1, b2]\<rparr>)) (\<lambda>_ w4.
     andThen (Mp3WriteRegister (refill E) (SCI_BASS E) 0 w4) (\<lambda>_ w5.
     andThen (Mp3WriteRegister (refill E) (SCI_MODE E)
                ((b2 OR SM_RESET E) AND NOT (SM_ADPCM E)) w5) (\<lambda>_ w6.
     andThen (Mp3WriteRegister (refill E) (SCI_AIADDR E) 0 (w6\<lparr>isPatched := False\<rparr>))
       (\<lambda>_ w7.
       Mp3WriteWRAM E (refill E) (para_interrupt E) 0x02 False w7)))))))"

text \<open>Step 3: load the profile with the loader the build selects; the result is the
  loader's return value.\<close>

definition recordOgg_load :: "env \<Rightarrow> string \<Rightarrow> world \<Rightarrow> u8 result" where
  "recordOgg_load E profileName w =
     (if PROFILE_LOADER_is_IMG E
      then andThen (VSLoadImage E profileName w) (\<lambda>(res, addr) w1. Inr (res, w1))
      else VSLoadUserCode E profileName w)"

text \<open>Step 4: input routing, gain and AGC.\<close>

definition recordOgg_configure :: "env \<Rightarrow> bool \<Rightarrow> world \<Rightarrow> unit result" where
  "recordOgg_configure E isStereo w =
     andThen (Mp3ReadRegister E (refill E) (SCI_MODE E) w) (\<lambda>m w1.
       let sciMODE = (if isStereo then m OR SM_ADPCM E OR SM_LAYER12 E else m OR SM_ADPCM E)
       in
     andThen (Mp3WriteRegister (refill E) (SCI_MODE E)
                (if VS_LINE1_MODE E then sciMODE OR SM_LINE1 E
                 else sciMODE AND NOT (SM_LINE1 E))
                (w1\<lparr>isRecordingStereo := isStereo\<rparr>)) (\<lambda>_ w2.
     andThen (Mp3WriteRegister (refill E) (SCI_AICTRL1 E) 1024 w2) (\<lambda>_ w3.
     andThen (Mp3WriteRegister (refill E) (SCI_AICTRL2 E) 0 w3) (\<lambda>_ w4.
       Mp3WriteRegister (refill E) (SCI_AICTRL3 E) 0 w4))))"

text \<open>The whole function; steps 5 and 6 open the output file and start the encoder.\<close>

definition recordOgg :: "env \<Rightarrow> string \<Rightarrow> string \<Rightarrow> bool \<Rightarrow> world \<Rightarrow> u8 result" where
  "recordOgg E fileName profileName isStereo w =
     (if isBusy w \<noteq> 0 then Inr (1, w)
      else
        andThen (recordOgg_prepare E w) (\<lambda>_ w1.
        andThen (recordOgg_load E profileName w1) (\<lambda>res w2.
          if res \<noteq> 0 then Inr (2, w2\<lparr>playing_state := ready\<rparr>)
          else
            andThen (recordOgg_configure E isStereo w2) (\<lambda>_ w3.
              let (ok, w4) = track_open fileName True w3
              in if \<not> ok then Inr (2, w4)
                 else
                   andThen (Mp3WriteRegister (refill E) (SCI_AIADDR E) 0x34 w4) (\<lambda>_ w5.
                   andThen (wait_DREQ w5) (\<lambda>_ w6.
                     Inr (0, enableRefill True (w6\<lparr>playing_state := recording\<rparr>))))))))"

section \<open>A concrete platform\<close>

text \<open>The register map and mode bits of the VS1053 data sheet, for a given buffer size
  and chip, and the world as the static initialisers of the translation unit leave it
  (the chip still held in reset), for given files on the card and samples of DREQ.\<close>

definition vs1053_env :: "nat \<Rightarrow> (bus_event list \<Rightarrow> u8) \<Rightarrow> env" where
  "vs1053_env B c =
     \<lparr>BUFFER_SIZE = B, SKIPPING_SPEED = 4,
      SM_LAYER12 = 0x0002, SM_RESET = 0x0004, SM_CANCEL = 0x0008, SM_ADPCM = 0x1000,
      SM_LINE1 = 0x4000,
      SCI_MODE = 0x00, SCI_BASS = 0x02, SCI_CLOCKF = 0x03, SCI_DECODE_TIME = 0x04,
      SCI_WRAM = 0x06, SCI_WRAMADDR = 0x07, SCI_AIADDR = 0x0A, SCI_VOL = 0x0B,
      SCI_AICTRL1 = 0x0D, SCI_AICTRL2 = 0x0E, SCI_AICTRL3 = 0x0F,
      para_playSpeed = 0x1E04, para_byteRate = 0x1E05, para_endFillByte = 0x1E06,
      para_interrupt = 0xC01A,
      PROFILE_LOADER_is_IMG = False, VS_LINE1_MODE = False,
      chip = c\<rparr>"

definition power_on :: "nat \<Rightarrow> (string \<times> u8 list) list \<Rightarrow> bool list \<Rightarrow> world" where
  "power_on B files dreq =
     \<lparr>playing_state = uninitialized, isPatched = False, isSkipping = False,
      trackFormat = unknownFormat, duration = 0, position = 0, skipToPosition = 0,
      isRecordingStereo = False, VolL = 0x30, VolR = 0x30,
      mp3DataBuffer = replicate B 0, bufferOffset = 0, registers_backup = [0, 0, 0],
      bitrate = 0, start_of_music = 0,
      track = \<lparr>fopen = False, fdata = [], fpos = 0\<rparr>,
      reset_pin = False, refill_enabled = False, ogg_refill_enabled = False,
      dreq_in = dreq, bus_log = [], sd_files = files, sd_readonly = False, sd_log = []\<rparr>"

text \<open>A session with an open track of the given bytes, read from the start, and a
  bitrate of 16 left over from an earlier track.\<close>

definition mp3_track :: "u8 list \<Rightarrow> world" where
  "mp3_track bytes =
     (power_on 32 [] [])\<lparr>track := \<lparr>fopen = True, fdata = bytes, fpos = 0\<rparr>, bitrate := 16\<rparr>"

text \<open>An idle session on a patched chip out of reset, with the given files on the
  card, a card that may refuse writes, and the given samples of DREQ.\<close>

definition idle_card :: "(string \<times> u8 list) list \<Rightarrow> bool \<Rightarrow> bool list \<Rightarrow> world" where
  "idle_card files ro dreq =
     (power_on 32 files dreq)\<lparr>playing_state := ready, reset_pin := True, isPatched := True,
                                sd_readonly := ro\<rparr>"

text \<open>A chip that answers every transfer with 0, behind a 32-byte buffer.\<close>

definition env_zero_chip :: env where
  "env_zero_chip = vs1053_env 32 (\<lambda>h. 0)"

text \<open>A card without the recording profile, and a card that has the (empty) profile
  but refuses writes; DREQ reads high as often as \<open>recordOgg\<close> will ask.\<close>

definition no_profile :: world where
  "no_profile = idle_card [] False [True, True, True, True, True, True, True, True, True]"

definition no_write :: world where
  "no_write = idle_card [(''profile.053'', [])] True
     [True, True, True, True, True, True, True, True, True, True, True, True, True, True]"

text \<open>A session with an open OGG track of the given bytes, and two files of two
  32-byte chunks each: the comment header (marker, version, channel count, sample
  rate) in the first chunk and the last page header (marker, sample position) in the
  second.  The first has 2 channels, 44100 Hz and 441000 samples; the second 1
  channel, 8000 Hz and 524288000 samples.\<close>

definition ogg_track :: "u8 list \<Rightarrow> world" where
  "ogg_track bytes = (power_on 32 [] [])\<lparr>track := \<lparr>fopen = True, fdata = bytes, fpos = 0\<rparr>\<rparr>"

definition ogg_five_seconds :: "u8 list" where
  "ogg_five_seconds = [0x01, 0x76, 0x6F, 0x72, 0x62, 0x69, 0x73, 0x00, 0x00, 0x00, 0x00, 0x02, 0x44, 0xAC, 0x00, 0x00, 0x00, 0x00, 0x00, 0x00, 0x00, 0x00, 0x00, 0x00, 0x00, 0x00, 0x00, 0x00, 0x00, 0x00, 0x00, 0x00, 0x4F, 0x67, 0x67, 0x53, 0x00, 0x04, 0xA8, 0xBA, 0x06, 0x00, 0x00, 0x00, 0x00, 0x00, 0x00, 0x00, 0x00, 0x00, 0x00, 0x00, 0x00, 0x00, 0x00, 0x00, 0x00, 0x00, 0x00, 0x00, 0x00, 0x00, 0x00, 0x00]"

definition ogg_long :: "u8 list" where
  "ogg_long = [0x01, 0x76, 0x6F, 0x72, 0x62, 0x69, 0x73, 0x00, 0x00, 0x00, 0x00, 0x01, 0x40, 0x1F, 0x00, 0x00, 0x00, 0x00, 0x00, 0x00, 0x00, 0x00, 0x00, 0x00, 0x00, 0x00, 0x00, 0x00, 0x00, 0x00, 0x00, 0x00, 0x4F, 0x67, 0x67, 0x53, 0x00, 0x04, 0x00, 0x00, 0x40, 0x1F, 0x00, 0x00, 0x00, 0x00, 0x00, 0x00, 0x00, 0x00, 0x00, 0x00, 0x00, 0x00, 0x00, 0x00, 0x00, 0x00, 0x00, 0x00, 0x00, 0x00, 0x00, 0x00]"

section \<open>Observations used in the statements\<close>

text \<open>The bytes of the track that have not been read yet.\<close>

definition unread :: "world \<Rightarrow> u8 list" where
  "unread w = (if fopen (track w) then drop (fpos (track w)) (fdata (track w)) else [])"

text \<open>The samples of DREQ that are left after a busy-wait, and the number of high
  samples in a list: the number of busy-waits it can serve.\<close>

definition after_wait :: "bool list \<Rightarrow> bool list" where
  "after_wait ds = tl (dropWhile Not ds)"

definition ready_count :: "bool list \<Rightarrow> nat" where
  "ready_count ds = length (filter id ds)"

text \<open>The value a read transaction of register \<open>a\<close> returns when it starts after the
  bus history \<open>h\<close>: the chip's answers to the third and the fourth transfer.\<close>

definition sci_value :: "env \<Rightarrow> bus_event list \<Rightarrow> u8 \<Rightarrow> u16" where
  "sci_value E h a =
     twobyte (chip E (Xfer a # Xfer 0x03 # CsLow False # h))
             (chip E (Xfer 0xFF # Xfer a # Xfer 0x03 # CsLow False # h))"

text \<open>The sizes of the feeds in a bus log, newest first: a feed is what is sent
  between a data select and the data deselect that follows it.  The log is read from
  its newest event; the state is the number of bytes seen since a data deselect.\<close>

primrec scan_bursts :: "bus_event list \<Rightarrow> nat option \<Rightarrow> nat list" where
  "scan_bursts [] st = []"
| "scan_bursts (e # es) st =
     (case e of
        DcsHigh \<Rightarrow> scan_bursts es (Some 0)
      | DcsLow t \<Rightarrow> (case st of Some n \<Rightarrow> n # scan_bursts es None
                                 | None \<Rightarrow> scan_bursts es None)
      | Xfer b \<Rightarrow> scan_bursts es (map_option Suc st)
      | CsLow t \<Rightarrow> scan_bursts es st
      | CsHigh \<Rightarrow> scan_bursts es st)"


text \<open>The register writes in a bus log, newest first: a control select, the opcode 2,
  the address, two data bytes, and the control deselect.\<close>

definition write_frame :: "bus_event list \<Rightarrow> (u8 \<times> u16) option" where
  "write_frame es =
     (case es of
        Xfer l # Xfer m # Xfer a # Xfer opc # CsLow t # _ \<Rightarrow>
          if opc = 0x02 then Some (a, twobyte m l) else None
      | _ \<Rightarrow> None)"

primrec sci_writes :: "bus_event list \<Rightarrow> (u8 \<times> u16) list" where
  "sci_writes [] = []"
| "sci_writes (e # es) =
     (if e = CsHigh
      then (case write_frame es of Some wr \<Rightarrow> wr # sci_writes es | None \<Rightarrow> sci_writes es)
      else sci_writes es)"

text \<open>The values written to the mode register, newest first.\<close>

definition mode_writes :: "env \<Rightarrow> bus_event list \<Rightarrow> u16 list" where
  "mode_writes E log = map snd (filter (\<lambda>wr. fst wr = SCI_MODE E) (sci_writes log))"

text \<open>The transfer buffer as the feed loops need it: of the size the header gives, a
  multiple of 32 bytes below 65536, with the cursor on a multiple of 32 inside it.\<close>

definition buffer_ok :: "env \<Rightarrow> world \<Rightarrow> bool" where
  "buffer_ok E w \<longleftrightarrow>
     length (mp3DataBuffer w) = BUFFER_SIZE E \<and> 32 dvd BUFFER_SIZE E \<and> 0 < BUFFER_SIZE E
     \<and> BUFFER_SIZE E < 65536 \<and> 32 dvd unat (bufferOffset w)
     \<and> unat (bufferOffset w) \<le> BUFFER_SIZE E"

text \<open>What a stretch of execution from \<open>w\<close> to \<open>w'\<close> did, as far as the handshake
  is concerned: the bus log grew by events that hold the feeds \<open>fs\<close> and the writes
  \<open>ms\<close> to the mode register (both newest first), at most \<open>d\<close> high samples of
  DREQ were used, and the reset line, the state and the patch flag are as they
  were.\<close>

definition run_adds :: "env \<Rightarrow> nat list \<Rightarrow> u16 list \<Rightarrow> nat \<Rightarrow> world \<Rightarrow> world \<Rightarrow> bool" where
  "run_adds E fs ms d w w' \<longleftrightarrow>
     (\<exists>new. bus_log w' = new @ bus_log w
            \<and> (\<forall>es. scan_bursts (new @ es) None = fs @ scan_bursts es None)
            \<and> (\<forall>es. mode_writes E (new @ es) = ms @ mode_writes E es))
     \<and> reset_pin w' = reset_pin w \<and> playing_state w' = playing_state w
     \<and> isPatched w' = isPatched w
     \<and> ready_count (dreq_in w) \<le> ready_count (dreq_in w') + d"

text \<open>A stretch of execution that touched nothing but the chip: only the samples of
  DREQ, the bus log and the patch flag may differ.\<close>

definition bus_only :: "world \<Rightarrow> world \<Rightarrow> bool" where
  "bus_only w w' \<longleftrightarrow>
     w'\<lparr>dreq_in := dreq_in w, bus_log := bus_log w, isPatched := isPatched w\<rparr> = w"

text \<open>What every stretch of the handshake keeps, whatever the chip answers: the reset
  line, the state and the skipping flag; and it uses at most \<open>d\<close> high samples of
  DREQ.\<close>

definition keeps :: "nat \<Rightarrow> world \<Rightarrow> world \<Rightarrow> bool" where
  "keeps d w w' \<longleftrightarrow>
     reset_pin w' = reset_pin w \<and> playing_state w' = playing_state w
     \<and> isSkipping w' = isSkipping w
     \<and> ready_count (dreq_in w) \<le> ready_count (dreq_in w') + d"

text \<open>The seeks in a storage log, newest first.\<close>

fun is_seek :: "storage_op \<Rightarrow> bool" where
  "is_seek (OpSeekSet p) = True"
| "is_seek (OpSeekCur d) = True"
| "is_seek OpSeekEnd = True"
| "is_seek _ = False"

definition seek_ops :: "storage_op list \<Rightarrow> storage_op list" where
  "seek_ops log = filter is_seek log"




text \<open>A bus history in which the driver's cancel request stands: the newest write to
  the mode register has the bits of SM_CANCEL set.\<close>

definition cancel_requested :: "env \<Rightarrow> bus_event list \<Rightarrow> bool" where
  "cancel_requested E h \<longleftrightarrow>
     (case mode_writes E h of [] \<Rightarrow> False | v # _ \<Rightarrow> v AND SM_CANCEL E = SM_CANCEL E)"






text \<open>Two OGG sessions in state playback on the five-second file, with DREQ reading
  high 2315 times.  The first is in the middle of the track: the first 32 bytes are in
  the buffer, none of them fed yet, and 32 bytes are still to be read.  The second is
  at the end: the file has been read to its last byte and the 32-byte buffer is used
  up.\<close>

definition ogg_mid_file :: world where
  "ogg_mid_file =
     (power_on 32 [] (True # replicate 2314 True))
       \<lparr>playing_state := playback, reset_pin := True, trackFormat := ogg, duration := 5,
        mp3DataBuffer := take 32 ogg_five_seconds,
        track := \<lparr>fopen = True, fdata = ogg_five_seconds, fpos = 32\<rparr>\<rparr>"

definition ogg_at_end :: world where
  "ogg_at_end =
     (power_on 32 [] (True # replicate 2314 True))
       \<lparr>playing_state := playback, reset_pin := True, trackFormat := ogg, duration := 5,
        track := \<lparr>fopen = True, fdata = ogg_five_seconds, fpos = 64\<rparr>,
        bufferOffset := 32\<rparr>"





section \<open>Register access while the chip is held in reset\<close>

text \<open>C9: with MP3\_RESET reading low, \<open>Mp3WriteRegister\<close> returns at once and changes
  nothing (no bus event, no field), and \<open>Mp3ReadRegister\<close> returns 0, again with the
  world as it was; neither is a fault.  This holds for every address, every data value
  and every refill routine.\<close>

theorem C9_register_access_in_reset:
  "\<not> reset_pin w \<Longrightarrow>
     Mp3WriteRegister3 rf address msb lsb w = Inr ((), w)
     \<and> Mp3WriteRegister rf address data w = Inr ((), w)
     \<and> Mp3ReadRegister E rf address w = Inr (0, w)"
  by (simp add: Mp3WriteRegister3_def Mp3WriteRegister_def Mp3ReadRegister_def)

theorem C9_register_access_in_reset_witness:
  "\<not> reset_pin (power_on 32 [] [])
   \<and> Mp3WriteRegister3 (\<lambda>w. Inl Hang) 0x00 0x08 0x04 (power_on 32 [] [])
       = Inr ((), power_on 32 [] [])
   \<and> Mp3WriteRegister (\<lambda>w. Inl Hang) 0x00 0x0804 (power_on 32 [] [])
       = Inr ((), power_on 32 [] [])
   \<and> Mp3ReadRegister (vs1053_env 32 (\<lambda>h. 0xFF)) (\<lambda>w. Inl Hang) 0x00 (power_on 32 [] [])
       = Inr (0, power_on 32 [] [])"
  using C9_register_access_in_reset
    [where w = "power_on 32 [] []" and rf = "\<lambda>w. Inl Hang" and address = "0x00"
       and msb = "0x08" and lsb = "0x04" and data = "0x0804"
       and E = "vs1053_env 32 (\<lambda>h. 0xFF)"]
  by (simp add: power_on_def)

section \<open>Play while busy\<close>

text \<open>C1: in each of the states playback, paused\_playback, recording, cancelling,
  skipping and finishing, \<open>play(fileName, timecode)\<close> returns 1 and leaves the world
  as it was: no field of the session changes, the storage log gets no entry (no open,
  read or seek) and the bus log gets none.  The level of the reset line does not
  matter.\<close>

theorem C1_play_while_busy:
  "playing_state w \<in> {playback, paused_playback, recording, cancelling, skipping, finishing}
   \<Longrightarrow> play E fileName timecode w = Inr (1, w)"
  by (auto simp add: play_def isBusy_def)

theorem C1_play_while_busy_witness:
  "playing_state ((power_on 32 [] [])\<lparr>playing_state := recording, reset_pin := True\<rparr>)
     \<in> {playback, paused_playback, recording, cancelling, skipping, finishing}
   \<and> play (vs1053_env 32 (\<lambda>h. 0xFF)) ''track001.mp3'' 0
         ((power_on 32 [] [])\<lparr>playing_state := recording, reset_pin := True\<rparr>)
       = Inr (1, (power_on 32 [] [])\<lparr>playing_state := recording, reset_pin := True\<rparr>)"
  using C1_play_while_busy
    [where w = "(power_on 32 [] [])\<lparr>playing_state := recording, reset_pin := True\<rparr>"
       and E = "vs1053_env 32 (\<lambda>h. 0xFF)" and fileName = "''track001.mp3''"
       and timecode = 0]
  by simp

section \<open>Pause and resume\<close>

text \<open>C7: from state playback with the chip out of reset, \<open>pauseMusic()\<close> followed by
  \<open>resumeMusic(0xFFFFFFFF)\<close> returns 0 and changes nothing but the refill
  notification, which ends up enabled: the state is playback again, the file handle
  (and so the storage position) and the bitrate are as before, and the storage log
  and the bus log have no new entry, so no seek was made.\<close>

theorem C7_pause_resume_keep_position:
  "playing_state w = playback \<Longrightarrow> reset_pin w \<Longrightarrow>
     resumeMusic E 0xFFFFFFFF (pauseMusic w) = Inr (0, w\<lparr>refill_enabled := True\<rparr>)
     \<and> playing_state (w\<lparr>refill_enabled := True\<rparr>) = playback
     \<and> track (w\<lparr>refill_enabled := True\<rparr>) = track w
     \<and> bitrate (w\<lparr>refill_enabled := True\<rparr>) = bitrate w
     \<and> sd_log (w\<lparr>refill_enabled := True\<rparr>) = sd_log w
     \<and> bus_log (w\<lparr>refill_enabled := True\<rparr>) = bus_log w"
  by (simp add: resumeMusic_def pauseMusic_def andThen_def enableRefill_def disableRefill_def)

theorem C7_pause_resume_keep_position_witness:
  "resumeMusic (vs1053_env 32 (\<lambda>h. 0xFF)) 0xFFFFFFFF
     (pauseMusic ((power_on 32 [] [])\<lparr>playing_state := playback, reset_pin := True\<rparr>))
   = Inr (0, (power_on 32 [] [])\<lparr>playing_state := playback, reset_pin := True,
                                      refill_enabled := True\<rparr>)"
  using C7_pause_resume_keep_position
    [where w = "(power_on 32 [] [])\<lparr>playing_state := playback, reset_pin := True\<rparr>"
       and E = "vs1053_env 32 (\<lambda>h. 0xFF)"]
  by simp

section \<open>The frame-header bitrate scan\<close>

lemma drop_Cons_lt: "drop n xs = y # ys \<Longrightarrow> n < length xs"
  by (cases "n < length xs") simp_all

lemma drop_Suc_of_Cons: "drop n xs = y # ys \<Longrightarrow> drop (Suc n) xs = ys"
  by (simp add: drop_Suc tl_drop [symmetric])

lemma sd_read_1:
  "sd_read (Suc 0) f =
     (if \<not> fopen f then (- 1, [], f)
      else case drop (fpos f) (fdata f) of
             [] \<Rightarrow> (0, [], f\<lparr>fpos := fpos f\<rparr>)
           | x # xs \<Rightarrow> (1, [x], f\<lparr>fpos := Suc (fpos f)\<rparr>))"
proof (cases "drop (fpos f) (fdata f)")
  case Nil
  then show ?thesis by (simp add: sd_read_def Let_def)
next
  case (Cons x xs)
  from drop_Cons_lt [OF Cons] have "min (length (fdata f) - fpos f) (Suc 0) = Suc 0" by simp
  then show ?thesis using Cons by (simp add: sd_read_def Let_def)
qed

lemma track_read_byte_unread:
  "fst (track_read_byte w) = (case unread w of [] \<Rightarrow> - 1 | x # xs \<Rightarrow> uint x)"
  "unread (snd (track_read_byte w)) = tl (unread w)"
  by (simp_all add: track_read_byte_def sd_read_1 unread_def drop_Suc_of_Cons
        split: list.splits)

lemma track_read_byte_frame:
  "bitrate (snd (track_read_byte w)) = bitrate w"
  "start_of_music (snd (track_read_byte w)) = start_of_music w"
  by (simp_all add: track_read_byte_def sd_read_def Let_def case_prod_beta)

text \<open>The scan for the frame sync touches neither \<open>bitrate\<close> nor
  \<open>start_of_music\<close>.\<close>

lemma mp3_sync_scan_frame:
  "bitrate (snd (mp3_sync_scan n r w)) = bitrate w
   \<and> start_of_music (snd (mp3_sync_scan n r w)) = start_of_music w"
  by (induction n arbitrary: w) (simp_all add: Let_def case_prod_beta track_read_byte_frame)

lemma uint_u8_neq_255: "(x :: u8) \<noteq> 0xFF \<Longrightarrow> uint x \<noteq> 255"
  by (simp add: word_uint_eq_iff)

text \<open>A track without a byte 0xFF in what is left of it has no frame sync.\<close>

lemma mp3_sync_scan_no_FF:
  "0xFF \<notin> set (unread w) \<Longrightarrow> fst (mp3_sync_scan n r w) = None"
proof (induction n arbitrary: w)
  case 0
  then show ?case by simp
next
  case (Suc n)
  have a: "fst (track_read_byte w) \<noteq> 255"
    using Suc.prems by (auto simp add: track_read_byte_unread uint_u8_neq_255 split: list.splits)
  have "0xFF \<notin> set (unread (snd (track_read_byte w)))"
    using Suc.prems by (cases "unread w") (simp_all add: track_read_byte_unread)
  from Suc.IH [OF this] show ?case using a by (simp add: case_prod_beta)
qed

lemma mp3_sync_scan_numeral:
  "mp3_sync_scan (numeral k) row_num w =
     (let (b, w1) = track_read_byte w
      in if b = 0xFF then
           let (t, w2) = track_read_byte w1;
               temp = to_u8 t
           in if temp AND 0xE0 = 0xE0 \<and> temp AND 0x06 \<noteq> 0x00 then
                if temp AND 0x08 = 0 then (Some 3, w2)
                else if temp AND 0x06 = 0x04 then (Some (row_num + 1), w2)
                else if temp AND 0x06 = 0x02 then (Some (row_num + 2), w2)
                else mp3_sync_scan (pred_numeral k) row_num w2
              else mp3_sync_scan (pred_numeral k) row_num w2
         else mp3_sync_scan (pred_numeral k) row_num w1)"
  by (simp only: numeral_eq_Suc mp3_sync_scan.simps)

text \<open>C5, as the specification states it, fails: the function clears \<open>bitrate\<close>
  before it scans.  On a track of the three bytes "ID3", read with a bitrate of 16
  left from before, the call returns without a fault and the bitrate is 0, not 16.\<close>

theorem C5_bitrate_not_kept_counterexample:
  "bitrate (mp3_track [0x49, 0x44, 0x33]) = 16
   \<and> map_sum id (\<lambda>(u, w). bitrate w) (getBitRateFromMP3File (mp3_track [0x49, 0x44, 0x33]))
       = Inr 0"
proof -
  let ?w = "(mp3_track [0x49, 0x44, 0x33])\<lparr>bitrate := 0\<rparr>"
  have "0xFF \<notin> set (unread ?w)" by (simp add: unread_def mp3_track_def)
  then have "fst (mp3_sync_scan 65535 0 ?w) = None" by (rule mp3_sync_scan_no_FF)
  moreover have "bitrate (snd (mp3_sync_scan 65535 0 ?w)) = 0"
    by (simp add: mp3_sync_scan_frame)
  moreover have "bitrate (mp3_track [0x49, 0x44, 0x33]) = 16" by (simp add: mp3_track_def)
  ultimately show ?thesis
    by (simp add: getBitRateFromMP3File_def case_prod_beta split: option.splits)
qed

text \<open>C5 as amended: whenever the scan of 65535 passes ends without an accepted frame
  header, \<open>getBitRateFromMP3File\<close> returns without a fault, \<open>bitrate\<close> is 0 (the
  value the function gives it on entry, whatever it held before) and
  \<open>start_of_music\<close> is what it was.\<close>

theorem C5_no_sync_clears_bitrate:
  "fst (mp3_sync_scan 65535 0 (w\<lparr>bitrate := 0\<rparr>)) = None \<Longrightarrow>
     \<exists>w'. getBitRateFromMP3File w = Inr ((), w') \<and> bitrate w' = 0
          \<and> start_of_music w' = start_of_music w"
  using mp3_sync_scan_frame [of 65535 0 "w\<lparr>bitrate := 0\<rparr>"]
  by (simp add: getBitRateFromMP3File_def case_prod_beta split: option.splits)

theorem C5_no_sync_clears_bitrate_witness:
  "fst (mp3_sync_scan 65535 0 ((mp3_track [0x49, 0x44, 0x33])\<lparr>bitrate := 0\<rparr>)) = None
   \<and> (\<exists>w'. getBitRateFromMP3File (mp3_track [0x49, 0x44, 0x33]) = Inr ((), w')
          \<and> bitrate w' = 0
          \<and> start_of_music w' = start_of_music (mp3_track [0x49, 0x44, 0x33]))"
proof -
  have "0xFF \<notin> set (unread ((mp3_track [0x49, 0x44, 0x33])\<lparr>bitrate := 0\<rparr>))"
    by (simp add: unread_def mp3_track_def)
  then have h: "fst (mp3_sync_scan 65535 0 ((mp3_track [0x49, 0x44, 0x33])\<lparr>bitrate := 0\<rparr>))
                = None"
    by (rule mp3_sync_scan_no_FF)
  from C5_no_sync_clears_bitrate [OF h] h show ?thesis by blast
qed

text \<open>C10: the bitrate code is the high nibble of a byte, so it ranges up to 15; the
  table has 15 rows, so a lookup with code 15 finds nothing in it, in any column; and
  for every track on which the scan accepts a frame header whose next byte has the
  high nibble 15 (a byte 0xF0 to 0xFF, or the -1 that \<open>track.read()\<close> returns at
  the end of the file), \<open>getBitRateFromMP3File\<close> reads outside the table.\<close>

theorem C10_bitrate_code_15_outside_table:
  assumes "mp3_sync_scan 65535 0 (w\<lparr>bitrate := 0\<rparr>) = (Some row_num, w1)"
    and "drop_bit 4 (to_u8 (fst (track_read_byte w1))) = 15"
  shows "unat (drop_bit 4 (temp :: u8)) \<le> 15 \<and> length bitrate_table = 15
         \<and> bitrate_lookup 15 row = None
         \<and> getBitRateFromMP3File w = Inl OutOfBounds"
proof -
  have "unat temp < 256" using unsigned_less [of temp] by simp
  then have a: "unat (drop_bit 4 temp) \<le> 15"
    by (simp add: unat_drop_bit_eq drop_bit_eq_div unat_div)
  have b: "length bitrate_table = 15" by (simp add: bitrate_table_def)
  have c: "bitrate_lookup 15 row = None" by (simp add: bitrate_lookup_def b)
  have "mp3_frame_header row_num w1 = Inl OutOfBounds"
    using assms(2) by (simp add: mp3_frame_header_def case_prod_beta bitrate_lookup_def b)
  then have "getBitRateFromMP3File w = Inl OutOfBounds"
    using assms(1) by (simp add: getBitRateFromMP3File_def)
  with a b c show ?thesis by simp
qed

theorem C10_bitrate_code_15_outside_table_witness:
  "fst (mp3_sync_scan 65535 0 ((mp3_track [0xFF, 0xFB, 0xF0])\<lparr>bitrate := 0\<rparr>)) = Some 2
   \<and> unat (drop_bit 4 (0xF0 :: u8)) \<le> 15 \<and> length bitrate_table = 15
   \<and> bitrate_lookup 15 2 = None
   \<and> getBitRateFromMP3File (mp3_track [0xFF, 0xFB, 0xF0]) = Inl OutOfBounds"
proof -
  let ?w = "(mp3_track [0xFF, 0xFB, 0xF0])\<lparr>bitrate := 0\<rparr>"
  have f: "fst (mp3_sync_scan 65535 0 ?w) = Some 2"
    by (simp add: Let_def mp3_sync_scan_numeral mp3_track_def power_on_def track_read_byte_def
          sd_read_def to_u8_def)
  then have h1: "mp3_sync_scan 65535 0 ?w = (Some 2, snd (mp3_sync_scan 65535 0 ?w))"
    by (simp add: prod_eq_iff)
  have h2: "drop_bit 4 (to_u8 (fst (track_read_byte (snd (mp3_sync_scan 65535 0 ?w))))) = 15"
    by (simp add: Let_def mp3_sync_scan_numeral mp3_track_def power_on_def track_read_byte_def
          sd_read_def to_u8_def)
  from C10_bitrate_code_15_outside_table [OF h1 h2, of "0xF0" 2] f show ?thesis by simp
qed

section \<open>Result codes of recordOgg\<close>

lemmas reg_defs = Mp3ReadRegister_def Mp3WriteRegister_def Mp3WriteRegister3_def Mp3WriteWRAM_def
  Mp3ReadWRAM_def andThen_def wait_DREQ_def cs_low_def cs_high_def SPI_send_def SPI_transfer_def
  twobyte_def byte0_def byte1_def Let_def

lemmas card_defs = env_zero_chip_def no_profile_def no_write_def idle_card_def power_on_def
  vs1053_env_def

text \<open>C8, as the specification states it, fails: a profile that cannot be loaded and
  an output file that cannot be opened give the same code.  On a card without the
  profile \<open>recordOgg\<close> returns 2; on a card that has the profile but refuses writes it
  returns 2 as well.\<close>

theorem C8_same_code_counterexample:
  "map_of (sd_files no_profile) ''profile.053'' = None
   \<and> map_sum id fst (recordOgg env_zero_chip ''rec.ogg'' ''profile.053'' False no_profile) = Inr 2
   \<and> map_of (sd_files no_write) ''profile.053'' = Some []
   \<and> sd_readonly no_write
   \<and> map_sum id fst (recordOgg env_zero_chip ''rec.ogg'' ''profile.053'' False no_write) = Inr 2"
  by (simp add: recordOgg_def isBusy_def card_defs recordOgg_prepare_def
      recordOgg_load_def VSLoadUserCode_def track_open_def reg_defs recordOgg_configure_def
      read_twobyte_def sd_read_def track_close_def)

text \<open>C8 as amended: \<open>recordOgg\<close> returns 1 when the session is busy (and then does
  nothing else); when the session is not busy it returns 2 if the profile loader
  returns a non-zero code, and it returns 2 again if the loader succeeds and the output
  file cannot be opened.  Busy is told apart from the other two causes; those two
  share the code 2.\<close>

theorem C8_recordOgg_codes:
  "(isBusy w \<noteq> 0 \<longrightarrow> recordOgg E fileName profileName isStereo w = Inr (1, w))
   \<and> (isBusy w = 0 \<longrightarrow> recordOgg_prepare E w = Inr ((), w1) \<longrightarrow>
        recordOgg_load E profileName w1 = Inr (res, w2) \<longrightarrow> res \<noteq> 0 \<longrightarrow>
        recordOgg E fileName profileName isStereo w = Inr (2, w2\<lparr>playing_state := ready\<rparr>))
   \<and> (isBusy w = 0 \<longrightarrow> recordOgg_prepare E w = Inr ((), w1) \<longrightarrow>
        recordOgg_load E profileName w1 = Inr (0, w2') \<longrightarrow>
        recordOgg_configure E isStereo w2' = Inr ((), w3) \<longrightarrow>
        \<not> fst (track_open fileName True w3) \<longrightarrow>
        recordOgg E fileName profileName isStereo w = Inr (2, snd (track_open fileName True w3)))"
  by (simp add: recordOgg_def andThen_def case_prod_beta)

theorem C8_recordOgg_codes_witness:
  "isBusy (no_profile\<lparr>playing_state := recording\<rparr>) \<noteq> 0
   \<and> recordOgg env_zero_chip ''rec.ogg'' ''profile.053'' False
         (no_profile\<lparr>playing_state := recording\<rparr>)
       = Inr (1, no_profile\<lparr>playing_state := recording\<rparr>)
   \<and> isBusy no_profile = 0
   \<and> map_sum id fst (recordOgg_load env_zero_chip ''profile.053''
         (snd (projr (recordOgg_prepare env_zero_chip no_profile)))) = Inr 2
   \<and> map_sum id fst (recordOgg env_zero_chip ''rec.ogg'' ''profile.053'' False no_profile) = Inr 2
   \<and> isBusy no_write = 0
   \<and> map_sum id fst (recordOgg_load env_zero_chip ''profile.053''
         (snd (projr (recordOgg_prepare env_zero_chip no_write)))) = Inr 0
   \<and> map_sum id fst (recordOgg env_zero_chip ''rec.ogg'' ''profile.053'' False no_write) = Inr 2"
  using C8_recordOgg_codes [where w = "no_profile\<lparr>playing_state := recording\<rparr>"
      and E = env_zero_chip and fileName = "''rec.ogg''" and profileName = "''profile.053''"
      and isStereo = False]
  by (simp add: recordOgg_def isBusy_def card_defs recordOgg_prepare_def
      recordOgg_load_def VSLoadUserCode_def track_open_def reg_defs recordOgg_configure_def
      read_twobyte_def sd_read_def track_close_def)

section \<open>The OGG duration\<close>

lemma andThen_Inr_iff:
  "andThen m f = Inr y \<longleftrightarrow> (\<exists>x w. m = Inr (x, w) \<and> f x w = Inr y)"
  by (cases m) (auto simp add: andThen_def)

lemma track_seekSet_fopen [simp]:
  "fopen (track (snd (track_seekSet p w))) = fopen (track w)"
  by (simp add: track_seekSet_def sd_seekSet_def case_prod_beta)

lemma track_seekEnd_fopen [simp]:
  "fopen (track (snd (track_seekEnd w))) = fopen (track w)"
  by (simp add: track_seekEnd_def sd_seekSet_def case_prod_beta)

lemma track_read_buffer_fopen:
  "track_read_buffer n w = Inr (r, w') \<Longrightarrow> fopen (track w) \<Longrightarrow> fopen (track w')"
  by (auto simp add: track_read_buffer_def sd_read_def Let_def case_prod_beta split: if_splits)

lemma header1_for_fopen:
  "header1_for E k i w = Inr (off, w') \<Longrightarrow> fopen (track w) \<Longrightarrow> fopen (track w')"
proof (induction k arbitrary: i w)
  case 0
  then show ?case by simp
next
  case (Suc k)
  then show ?case
    by (auto simp add: andThen_Inr_iff split: if_splits option.splits bool.splits
          dest!: track_read_buffer_fopen)
qed

lemma ogg_header_fields_fopen:
  "ogg_header_fields E off w = Inr (x, w') \<Longrightarrow> fopen (track w) \<Longrightarrow> fopen (track w')"
  by (auto simp add: ogg_header_fields_def andThen_Inr_iff split: if_splits
        dest!: track_read_buffer_fopen)

lemma ogg_header_scan_fopen:
  "ogg_header_scan E n w = Inr (x, w') \<Longrightarrow> fopen (track w) \<Longrightarrow> fopen (track w')"
proof (induction n arbitrary: w)
  case 0
  then show ?case by simp
next
  case (Suc n)
  then show ?case
    by (auto simp add: andThen_Inr_iff split: if_splits
          dest!: track_read_buffer_fopen header1_for_fopen ogg_header_fields_fopen)
qed

lemma header2_for_fopen:
  "header2_for E ro k i w = Inr (off, w') \<Longrightarrow> fopen (track w) \<Longrightarrow> fopen (track w')"
proof (induction k arbitrary: i w)
  case 0
  then show ?case by simp
next
  case (Suc k)
  then show ?case
    by (auto simp add: andThen_Inr_iff split: if_splits option.splits bool.splits
          dest!: track_read_buffer_fopen)
qed

lemma ogg_page_fields_fopen:
  "ogg_page_fields E off w = Inr (x, w') \<Longrightarrow> fopen (track w) \<Longrightarrow> fopen (track w')"
  by (auto simp add: ogg_page_fields_def andThen_Inr_iff split: if_splits
        dest!: track_read_buffer_fopen)

lemma ogg_page_scan_fopen:
  "ogg_page_scan E n w = Inr (x, w') \<Longrightarrow> fopen (track w) \<Longrightarrow> fopen (track w')"
proof (induction n arbitrary: w)
  case 0
  then show ?case by simp
next
  case (Suc n)
  show ?case
  proof (cases "unat (curPosition w) \<ge> BUFFER_SIZE E")
    case False
    then show ?thesis using Suc.prems by simp
  next
    case True
    from Suc.prems(1) True obtain r w1 off w2 where
      a: "track_read_buffer (BUFFER_SIZE E) w = Inr (r, w1)"
      and b: "header2_for E (curPosition w) (BUFFER_SIZE E) 0 w1 = Inr (off, w2)"
      and c: "(if off < 0
               then ogg_page_scan E n
                      (snd (track_seekSet (curPosition w - of_nat (BUFFER_SIZE E)) w2))
               else ogg_page_fields E off w2) = Inr (x, w')"
      by (auto simp add: andThen_Inr_iff)
    have o2: "fopen (track w2)"
      using track_read_buffer_fopen [OF a Suc.prems(2)] header2_for_fopen [OF b] by simp
    show ?thesis
    proof (cases "off < 0")
      case True
      with c have "ogg_page_scan E n
                      (snd (track_seekSet (curPosition w - of_nat (BUFFER_SIZE E)) w2))
                   = Inr (x, w')" by simp
      from Suc.IH [OF this] o2 show ?thesis by simp
    next
      case False
      with c have "ogg_page_fields E off w2 = Inr (x, w')" by simp
      from ogg_page_fields_fopen [OF this o2] show ?thesis .
    qed
  qed
qed

lemma ogg_comment_header_fopen:
  "ogg_comment_header E w = Inr (x, w') \<Longrightarrow> fopen (track w) \<Longrightarrow> fopen (track w')"
  unfolding ogg_comment_header_def by (drule ogg_header_scan_fopen) simp_all

lemma ogg_last_page_fopen:
  "ogg_last_page E w = Inr (x, w') \<Longrightarrow> fopen (track w) \<Longrightarrow> fopen (track w')"
  unfolding ogg_last_page_def Let_def by (drule ogg_page_scan_fopen) simp_all

lemma seekSet_0: "fopen (track w) \<Longrightarrow> fpos (track (snd (track_seekSet 0 w))) = 0"
  by (simp add: track_seekSet_def sd_seekSet_def)

lemma duration_seekSet [simp]: "duration (snd (track_seekSet p w)) = duration w"
  by (simp add: track_seekSet_def case_prod_beta)

lemma unat_ucast_u8_u64: "unat (ucast (c :: u8) :: u64) = unat c"
  by (simp add: unsigned_ucast_eq take_bit_nat_eq_self unsigned_less [THEN less_trans])

lemma unat_ucast_u32_u64: "unat (ucast (r :: u32) :: u64) = unat r"
  by (simp add: unsigned_ucast_eq take_bit_nat_eq_self unsigned_less [THEN less_trans])

text \<open>C3 as amended: when the comment-header scan yields a channel count \<open>c\<close> and a sample
  rate \<open>r\<close>, both non-zero, and the page scan yields the sample position \<open>s\<close>,
  \<open>getOggInfo\<close> returns with \<open>duration\<close> set to the low 16 bits of \<open>s / c / r\<close>
  (integer division), that is \<open>(s / c / r) mod 65536\<close>, and with the open track back at
  offset 0.\<close>

theorem C3_ogg_duration:
  assumes "fopen (track w)"
    and "ogg_comment_header E w = Inr ((c, r), w1)"
    and "ogg_last_page E w1 = Inr (s, w2)"
    and "c \<noteq> 0" and "r \<noteq> 0"
  shows "\<exists>w'. getOggInfo E w = Inr ((), w')
           \<and> duration w' = ucast (s div ucast c div ucast r)
           \<and> unat (duration w') = (unat s div unat c div unat r) mod 65536
           \<and> fpos (track w') = 0"
proof -
  have o: "fopen (track w2)"
    using ogg_last_page_fopen [OF assms(3) ogg_comment_header_fopen [OF assms(2) assms(1)]] .
  have "unat (ucast (s div ucast c div ucast r) :: u16)
          = unat (s div ucast c div ucast r) mod 65536"
    by (simp add: unsigned_ucast_eq take_bit_eq_mod)
  moreover have "unat (s div ucast c div ucast r) = unat s div unat c div unat r"
    by (simp add: unat_div unat_ucast_u8_u64 unat_ucast_u32_u64)
  ultimately have u: "unat (ucast (s div ucast c div ucast r) :: u16)
           = (unat s div unat c div unat r) mod 65536"
    by simp
  show ?thesis
    using assms o u by (simp add: getOggInfo_def andThen_def seekSet_0)
qed

lemmas header1_for_numeral = header1_for.simps(2) [where k = "pred_numeral n", folded numeral_eq_Suc] for n
lemmas header2_for_numeral = header2_for.simps(2) [where k = "pred_numeral n", folded numeral_eq_Suc] for n
lemmas ogg_header_scan_numeral = ogg_header_scan.simps(2) [where n = "pred_numeral k", folded numeral_eq_Suc] for k
lemmas ogg_page_scan_numeral = ogg_page_scan.simps(2) [where n = "pred_numeral k", folded numeral_eq_Suc] for k

lemmas ogg_defs = ogg_comment_header_def ogg_last_page_def ogg_header_fields_def ogg_page_fields_def
  header1_for_numeral header2_for_numeral ogg_header_scan_numeral ogg_page_scan_numeral
  track_read_buffer_def track_seekSet_def track_seekEnd_def sd_seekSet_def sd_read_def curPosition_def
  buffer_matches_def header1_def header2_def to_int16_def to_uint16_def andThen_def Let_def
  ogg_track_def power_on_def env_zero_chip_def vs1053_env_def


text \<open>C3, as the specification states it, fails for long files: \<open>duration\<close> has 16
  bits.  A mono file at 8000 Hz whose last page reports sample position 524288000 has
  \<open>s / c / r = 65536\<close>, and \<open>getOggInfo\<close> sets \<open>duration\<close> to 0.\<close>

theorem C3_duration_truncated_counterexample:
  "map_sum id fst (ogg_comment_header env_zero_chip (ogg_track ogg_long)) = Inr (1, 8000)
   \<and> map_sum id fst (ogg_last_page env_zero_chip
         (snd (projr (ogg_comment_header env_zero_chip (ogg_track ogg_long))))) = Inr 524288000
   \<and> (524288000 :: nat) div 1 div 8000 = 65536
   \<and> map_sum id (\<lambda>(u, w). duration w) (getOggInfo env_zero_chip (ogg_track ogg_long)) = Inr 0"
  by (simp add: getOggInfo_def ogg_defs ogg_long_def)

theorem C3_ogg_duration_witness:
  "fopen (track (ogg_track ogg_five_seconds))
   \<and> map_sum id fst (ogg_comment_header env_zero_chip (ogg_track ogg_five_seconds))
       = Inr (2, 44100)
   \<and> map_sum id fst (ogg_last_page env_zero_chip
         (snd (projr (ogg_comment_header env_zero_chip (ogg_track ogg_five_seconds)))))
       = Inr 441000
   \<and> (\<exists>w'. getOggInfo env_zero_chip (ogg_track ogg_five_seconds) = Inr ((), w')
          \<and> duration w' = 5 \<and> fpos (track w') = 0)"
proof -
  let ?W = "ogg_track ogg_five_seconds"
  let ?W1 = "snd (projr (ogg_comment_header env_zero_chip ?W))"
  let ?W2 = "snd (projr (ogg_last_page env_zero_chip ?W1))"
  have o: "fopen (track ?W)" by (simp add: ogg_track_def)
  have a: "ogg_comment_header env_zero_chip ?W = Inr ((2, 44100), ?W1)"
    by (simp add: ogg_defs ogg_five_seconds_def)
  have b: "ogg_last_page env_zero_chip ?W1 = Inr (441000, ?W2)"
    by (simp add: ogg_defs ogg_five_seconds_def)
  have a': "map_sum id fst (ogg_comment_header env_zero_chip ?W) = Inr (2, 44100)"
    by (subst a) simp
  have b': "map_sum id fst (ogg_last_page env_zero_chip ?W1) = Inr 441000"
    by (subst b) simp
  from C3_ogg_duration [OF o a b] have
    "\<exists>w'. getOggInfo env_zero_chip ?W = Inr ((), w') \<and> duration w' = 5 \<and> fpos (track w') = 0"
    by auto
  with o a' b' show ?thesis by blast
qed

section \<open>Busy-waits, register access and the bus log outside playback\<close>

lemma ready_count_pos_iff: "0 < ready_count ds \<longleftrightarrow> True \<in> set ds"
  by (induction ds) (auto simp add: ready_count_def)

lemma dropWhile_Not_ready: "0 < ready_count ds \<Longrightarrow> dropWhile Not ds = True # after_wait ds"
  by (induction ds) (auto simp add: ready_count_def after_wait_def)

lemma ready_count_after_wait [simp]: "ready_count (after_wait ds) = ready_count ds - 1"
  by (induction ds) (auto simp add: ready_count_def after_wait_def)

lemma wait_DREQ_ready:
  "0 < ready_count (dreq_in w) \<Longrightarrow> wait_DREQ w = Inr ((), w\<lparr>dreq_in := after_wait (dreq_in w)\<rparr>)"
  by (simp add: wait_DREQ_def dropWhile_Not_ready)

lemma Mp3WriteRegister3_idle:
  "reset_pin w \<Longrightarrow> playing_state w \<noteq> playback \<Longrightarrow> 0 < ready_count (dreq_in w) \<Longrightarrow>
     Mp3WriteRegister3 rf a m l w =
       Inr ((), w\<lparr>dreq_in := after_wait (dreq_in w),
                   bus_log := CsHigh # Xfer l # Xfer m # Xfer a # Xfer 0x02 # CsLow True
                              # bus_log w\<rparr>)"
  by (simp add: Mp3WriteRegister3_def wait_DREQ_ready andThen_def cs_low_def cs_high_def
        SPI_send_def)

lemma Mp3WriteRegister_idle:
  "reset_pin w \<Longrightarrow> playing_state w \<noteq> playback \<Longrightarrow> 0 < ready_count (dreq_in w) \<Longrightarrow>
     Mp3WriteRegister rf a v w =
       Inr ((), w\<lparr>dreq_in := after_wait (dreq_in w),
                   bus_log := CsHigh # Xfer (byte0 v) # Xfer (byte1 v) # Xfer a # Xfer 0x02
                              # CsLow True # bus_log w\<rparr>)"
  by (simp add: Mp3WriteRegister_def Mp3WriteRegister3_idle)

lemma Mp3ReadRegister_idle:
  "reset_pin w \<Longrightarrow> playing_state w \<noteq> playback \<Longrightarrow> 0 < ready_count (dreq_in w) \<Longrightarrow>
     Mp3ReadRegister E rf a w =
       Inr (sci_value E (bus_log w) a,
            w\<lparr>dreq_in := after_wait (dreq_in w),
              bus_log := CsHigh # Xfer 0xFF # Xfer 0xFF # Xfer a # Xfer 0x03 # CsLow False
                         # bus_log w\<rparr>)"
  by (simp add: Mp3ReadRegister_def wait_DREQ_ready andThen_def cs_low_def cs_high_def
        SPI_send_def SPI_transfer_def sci_value_def)

lemma Mp3ReadWRAM_idle:
  "reset_pin w \<Longrightarrow> playing_state w \<noteq> playback \<Longrightarrow> 1 < ready_count (dreq_in w) \<Longrightarrow>
     Mp3ReadWRAM E rf addr False w =
       Inr (ucast (sci_value E (CsHigh # Xfer (byte0 addr) # Xfer (byte1 addr)
                                 # Xfer (SCI_WRAMADDR E) # Xfer 0x02 # CsLow True # bus_log w)
                     (SCI_WRAM E)),
            w\<lparr>dreq_in := after_wait (after_wait (dreq_in w)),
              bus_log := CsHigh # Xfer 0xFF # Xfer 0xFF # Xfer (SCI_WRAM E) # Xfer 0x03
                         # CsLow False
                         # CsHigh # Xfer (byte0 addr) # Xfer (byte1 addr)
                         # Xfer (SCI_WRAMADDR E) # Xfer 0x02 # CsLow True # bus_log w\<rparr>)"
  by (simp add: Mp3ReadWRAM_def Mp3WriteRegister_idle Mp3ReadRegister_idle andThen_def)

lemma SPI_send_funpow:
  "(SPI_send b ^^ n) w = w\<lparr>bus_log := replicate n (Xfer b) @ bus_log w\<rparr>"
  by (induction n arbitrary: w) (simp_all add: SPI_send_def funpow_swap1 replicate_app_Cons_same)

lemma fold_SPI_send:
  "fold (\<lambda>i. SPI_send (f i)) xs w = w\<lparr>bus_log := map (\<lambda>i. Xfer (f i)) (rev xs) @ bus_log w\<rparr>"
  by (induction xs arbitrary: w) (simp_all add: SPI_send_def)

lemma scan_bursts_replicate_Xfer [simp]:
  "scan_bursts (replicate n (Xfer b) @ es) (Some k) = scan_bursts es (Some (k + n))"
  "scan_bursts (replicate n (Xfer b) @ es) None = scan_bursts es None"
  by (induction n arbitrary: k) simp_all

lemma scan_bursts_map_Xfer [simp]:
  "scan_bursts (map (\<lambda>i. Xfer (f i)) xs @ es) (Some k) = scan_bursts es (Some (k + length xs))"
  "scan_bursts (map (\<lambda>i. Xfer (f i)) xs @ es) None = scan_bursts es None"
  by (induction xs arbitrary: k) simp_all

lemma sci_writes_skip [simp]:
  "sci_writes (Xfer b # es) = sci_writes es"
  "sci_writes (CsLow t # es) = sci_writes es"
  "sci_writes (DcsLow t # es) = sci_writes es"
  "sci_writes (DcsHigh # es) = sci_writes es"
  by simp_all

lemma sci_writes_write [simp]:
  "sci_writes (CsHigh # Xfer l # Xfer m # Xfer a # Xfer 0x02 # CsLow t # es)
   = (a, twobyte m l) # sci_writes es"
  by (simp add: write_frame_def)

lemma sci_writes_read [simp]:
  "sci_writes (CsHigh # Xfer l # Xfer m # Xfer a # Xfer 0x03 # CsLow t # es) = sci_writes es"
  by (simp add: write_frame_def)

declare sci_writes.simps(2) [simp del]

lemma sci_writes_replicate_Xfer [simp]:
  "sci_writes (replicate n (Xfer b) @ es) = sci_writes es"
  by (induction n) simp_all

lemma sci_writes_map_Xfer [simp]:
  "sci_writes (map (\<lambda>i. Xfer (f i)) xs @ es) = sci_writes es"
  by (induction xs) simp_all

lemma twobyte_bytes [simp]: "twobyte (byte1 v) (byte0 v) = v"
  unfolding twobyte_def byte1_def byte0_def
  by (rule bit_word_eqI) (auto simp add: bit_simps)

lemma sd_read_length: "length (fst (snd (sd_read n f))) \<le> n"
  by (simp add: sd_read_def Let_def)

lemma track_read_buffer_ok:
  "n \<le> length (mp3DataBuffer w) \<Longrightarrow>
     track_read_buffer n w =
       Inr (fst (sd_read n (track w)),
            w\<lparr>mp3DataBuffer := fst (snd (sd_read n (track w)))
                                @ drop (length (fst (snd (sd_read n (track w))))) (mp3DataBuffer w),
              track := snd (snd (sd_read n (track w))),
              sd_log := OpRead n # sd_log w\<rparr>)"
  using sd_read_length [of n "track w"]
  by (simp add: track_read_buffer_def case_prod_beta Let_def)

lemma feed_buffer32_ok:
  "unat (bufferOffset w) + 32 \<le> length (mp3DataBuffer w) \<Longrightarrow>
     feed_buffer32 w =
       Inr ((), w\<lparr>bus_log := map (\<lambda>i. Xfer (mp3DataBuffer w ! (unat (bufferOffset w) + i)))
                                  (rev [0..<32]) @ bus_log w\<rparr>)"
  by (simp add: feed_buffer32_def fold_SPI_send)

lemma dvd32_step: "32 dvd (a::nat) \<Longrightarrow> 32 dvd b \<Longrightarrow> a < b \<Longrightarrow> a + 32 \<le> b"
  by (auto elim!: dvdE)

lemma unat_plus_32:
  "unat (x :: u16) + 32 < 65536 \<Longrightarrow> unat (x + 32) = unat x + 32"
  by (simp add: unat_add_lem [THEN iffD1])

lemma mode_writes_simps [simp]:
  "mode_writes E (Xfer b # es) = mode_writes E es"
  "mode_writes E (CsLow t # es) = mode_writes E es"
  "mode_writes E (DcsLow t # es) = mode_writes E es"
  "mode_writes E (DcsHigh # es) = mode_writes E es"
  "mode_writes E (map (\<lambda>i. Xfer (f i)) xs @ es) = mode_writes E es"
  "mode_writes E (replicate n (Xfer b) @ es) = mode_writes E es"
  "mode_writes E (CsHigh # Xfer l # Xfer m # Xfer a # Xfer 0x03 # CsLow t # es) = mode_writes E es"
  "mode_writes E (CsHigh # Xfer l # Xfer m # Xfer a # Xfer 0x02 # CsLow t # es)
     = (if a = SCI_MODE E then twobyte m l # mode_writes E es else mode_writes E es)"
  by (simp_all add: mode_writes_def)

section \<open>The rounds of cancelDecoding\<close>


lemma run_adds_trans:
  "run_adds E fs1 ms1 d1 w w1 \<Longrightarrow> run_adds E fs2 ms2 d2 w1 w2 \<Longrightarrow>
     run_adds E (fs2 @ fs1) (ms2 @ ms1) (d1 + d2) w w2"
  unfolding run_adds_def
  apply (elim conjE exE)
  subgoal for new1 new2
    apply (intro conjI)
        apply (rule exI [of _ "new2 @ new1"])
        apply simp
       apply simp_all
    done
  done

lemma run_adds_weaken: "run_adds E fs ms d w w' \<Longrightarrow> d \<le> d' \<Longrightarrow> run_adds E fs ms d' w w'"
  by (auto simp add: run_adds_def)


lemma run_adds_read:
  "run_adds E [] [] 1 w
     (w\<lparr>dreq_in := after_wait (dreq_in w),
        bus_log := CsHigh # Xfer 0xFF # Xfer 0xFF # Xfer a # Xfer 0x03 # CsLow False # bus_log w\<rparr>)"
  unfolding run_adds_def
  by (intro conjI exI [of _ "[CsHigh, Xfer 0xFF, Xfer 0xFF, Xfer a, Xfer 0x03, CsLow False]"])
     simp_all

lemma run_adds_write:
  "run_adds E [] (if a = SCI_MODE E then [v] else []) 1 w
     (w\<lparr>dreq_in := after_wait (dreq_in w),
        bus_log := CsHigh # Xfer (byte0 v) # Xfer (byte1 v) # Xfer a # Xfer 0x02 # CsLow True
                   # bus_log w\<rparr>)"
  unfolding run_adds_def
  by (intro conjI exI [of _ "[CsHigh, Xfer (byte0 v), Xfer (byte1 v), Xfer a, Xfer 0x02, CsLow True]"])
     simp_all



lemma run_adds_fields:
  "run_adds E fs ms d w (w'\<lparr>mp3DataBuffer := x\<rparr>) = run_adds E fs ms d w w'"
  "run_adds E fs ms d w (w'\<lparr>bufferOffset := y\<rparr>) = run_adds E fs ms d w w'"
  "run_adds E fs ms d w (w'\<lparr>track := z\<rparr>) = run_adds E fs ms d w w'"
  "run_adds E fs ms d w (w'\<lparr>sd_log := u\<rparr>) = run_adds E fs ms d w w'"
  "run_adds E fs ms d (w\<lparr>mp3DataBuffer := x\<rparr>) w' = run_adds E fs ms d w w'"
  "run_adds E fs ms d (w\<lparr>bufferOffset := y\<rparr>) w' = run_adds E fs ms d w w'"
  "run_adds E fs ms d (w\<lparr>track := z\<rparr>) w' = run_adds E fs ms d w w'"
  "run_adds E fs ms d (w\<lparr>sd_log := u\<rparr>) w' = run_adds E fs ms d w w'"
  by (simp_all add: run_adds_def)




lemma run_adds_step:
  "run_adds E fs1 ms1 d1 w w1 \<Longrightarrow> run_adds E fs2 ms2 d2 w1 w2 \<Longrightarrow>
     fs = fs2 @ fs1 \<Longrightarrow> ms = ms2 @ ms1 \<Longrightarrow> d1 + d2 \<le> d \<Longrightarrow> run_adds E fs ms d w w2"
  using run_adds_weaken [OF run_adds_trans] by blast



lemma run_adds_frame:
  assumes "run_adds E fs ms d w w'"
  shows "reset_pin w' = reset_pin w" and "playing_state w' = playing_state w"
    and "isPatched w' = isPatched w" and "ready_count (dreq_in w) \<le> ready_count (dreq_in w') + d"
  using assms by (simp_all add: run_adds_def)






section \<open>The flushes and the rounds of flush\_cancel\<close>

lemma ready_count_funpow_after_wait [simp]:
  "ready_count ((after_wait ^^ n) ds) = ready_count ds - n"
  by (induction n) simp_all

lemma ready_count_replicate [simp]: "ready_count (replicate n True) = n"
  by (simp add: ready_count_def)


lemma fillEnd_loop_ready:
  "n \<le> ready_count (dreq_in w) \<Longrightarrow>
     fillEnd_loop n b w =
       Inr ((), w\<lparr>dreq_in := (after_wait ^^ n) (dreq_in w),
                   bus_log := replicate (32 * n) (Xfer b) @ bus_log w\<rparr>)"
proof (induction n arbitrary: w)
  case 0
  then show ?case by simp
next
  case (Suc n)
  have "0 < ready_count (dreq_in w)" using Suc.prems by simp
  then show ?case
    using Suc.IH [of "(SPI_send b ^^ 32) (w\<lparr>dreq_in := after_wait (dreq_in w)\<rparr>)"] Suc.prems
    by (simp add: wait_DREQ_ready andThen_def SPI_send_funpow funpow_swap1
          replicate_add [symmetric] del: replicate_add)
qed


lemma fillEnd_ready:
  "2052 \<le> ready_count (dreq_in w) \<Longrightarrow>
     fillEnd b w =
       Inr ((), w\<lparr>dreq_in := (after_wait ^^ 2052) (dreq_in w),
                   bus_log := DcsHigh # replicate (32 * 2052) (Xfer b) @ DcsLow True
                              # bus_log w\<rparr>)"
  by (simp add: fillEnd_def fillEnd_loop_ready andThen_def dcs_low_def dcs_high_def)

lemma bus_only_refl [simp]: "bus_only w w"
  by (simp add: bus_only_def)

lemma bus_only_upd [simp]:
  "bus_only w (w'\<lparr>dreq_in := ds\<rparr>) = bus_only w w'"
  "bus_only w (w'\<lparr>bus_log := bl\<rparr>) = bus_only w w'"
  "bus_only w (w'\<lparr>isPatched := p\<rparr>) = bus_only w w'"
  by (simp_all add: bus_only_def)

lemma bus_only_fields:
  assumes "bus_only w w'"
  shows "reset_pin w' = reset_pin w" and "playing_state w' = playing_state w"
    and "isSkipping w' = isSkipping w" and "track w' = track w" and "sd_log w' = sd_log w"
    and "mp3DataBuffer w' = mp3DataBuffer w" and "bufferOffset w' = bufferOffset w"
    and "start_of_music w' = start_of_music w" and "trackFormat w' = trackFormat w"
    and "position w' = position w" and "skipToPosition w' = skipToPosition w"
    and "duration w' = duration w" and "VolL w' = VolL w" and "VolR w' = VolR w"
    and "refill_enabled w' = refill_enabled w" and "bitrate w' = bitrate w"
proof -
  have e: "w'\<lparr>dreq_in := dreq_in w, bus_log := bus_log w, isPatched := isPatched w\<rparr> = w"
    using assms by (simp add: bus_only_def)
  show "reset_pin w' = reset_pin w" using arg_cong [OF e, of reset_pin] by simp
  show "playing_state w' = playing_state w" using arg_cong [OF e, of playing_state] by simp
  show "isSkipping w' = isSkipping w" using arg_cong [OF e, of isSkipping] by simp
  show "track w' = track w" using arg_cong [OF e, of track] by simp
  show "sd_log w' = sd_log w" using arg_cong [OF e, of sd_log] by simp
  show "mp3DataBuffer w' = mp3DataBuffer w" using arg_cong [OF e, of mp3DataBuffer] by simp
  show "bufferOffset w' = bufferOffset w" using arg_cong [OF e, of bufferOffset] by simp
  show "start_of_music w' = start_of_music w" using arg_cong [OF e, of start_of_music] by simp
  show "trackFormat w' = trackFormat w" using arg_cong [OF e, of trackFormat] by simp
  show "position w' = position w" using arg_cong [OF e, of position] by simp
  show "skipToPosition w' = skipToPosition w" using arg_cong [OF e, of skipToPosition] by simp
  show "duration w' = duration w" using arg_cong [OF e, of duration] by simp
  show "VolL w' = VolL w" using arg_cong [OF e, of VolL] by simp
  show "VolR w' = VolR w" using arg_cong [OF e, of VolR] by simp
  show "refill_enabled w' = refill_enabled w" using arg_cong [OF e, of refill_enabled] by simp
  show "bitrate w' = bitrate w" using arg_cong [OF e, of bitrate] by simp
qed

lemma bus_only_trans: "bus_only w w1 \<Longrightarrow> bus_only w1 w2 \<Longrightarrow> bus_only w w2"
proof -
  assume a: "bus_only w w1" and b: "bus_only w1 w2"
  have "w2\<lparr>dreq_in := dreq_in w1, bus_log := bus_log w1, isPatched := isPatched w1\<rparr> = w1"
    using b by (simp add: bus_only_def)
  then have "(w2\<lparr>dreq_in := dreq_in w1, bus_log := bus_log w1, isPatched := isPatched w1\<rparr>)
               \<lparr>dreq_in := dreq_in w, bus_log := bus_log w, isPatched := isPatched w\<rparr> = w"
    using a by (simp add: bus_only_def)
  then show ?thesis by (simp add: bus_only_def)
qed






lemma soft_reset_run:
  assumes "reset_pin w" and "playing_state w \<noteq> playback" and "2 \<le> ready_count (dreq_in w)"
  shows "\<exists>m' w5. andThen (Mp3ReadRegister E rf (SCI_MODE E) w) (\<lambda>m w4.
                  andThen (Mp3WriteRegister rf (SCI_MODE E) (m OR SM_RESET E) w4) (\<lambda>_ w5.
                    Inr ((), w5\<lparr>isPatched := False\<rparr>)))
                = Inr ((), w5\<lparr>isPatched := False\<rparr>)
           \<and> run_adds E [] [m' OR SM_RESET E] 2 w w5 \<and> bus_only w w5
           \<and> take 6 (bus_log w5)
               = [CsHigh, Xfer (byte0 (m' OR SM_RESET E)), Xfer (byte1 (m' OR SM_RESET E)),
                  Xfer (SCI_MODE E), Xfer 0x02, CsLow True]"
proof -
  let ?m' = "sci_value E (bus_log w) (SCI_MODE E)"
  let ?w4 = "w\<lparr>dreq_in := after_wait (dreq_in w),
               bus_log := CsHigh # Xfer 0xFF # Xfer 0xFF # Xfer (SCI_MODE E) # Xfer 0x03
                          # CsLow False # bus_log w\<rparr>"
  let ?w5 = "?w4\<lparr>dreq_in := after_wait (dreq_in ?w4),
               bus_log := CsHigh # Xfer (byte0 (?m' OR SM_RESET E)) # Xfer (byte1 (?m' OR SM_RESET E))
                          # Xfer (SCI_MODE E) # Xfer 0x02 # CsLow True # bus_log ?w4\<rparr>"
  have rd4: "Mp3ReadRegister E rf (SCI_MODE E) w = Inr (?m', ?w4)"
    using assms by (intro Mp3ReadRegister_idle) simp_all
  have wr5: "Mp3WriteRegister rf (SCI_MODE E) (?m' OR SM_RESET E) ?w4 = Inr ((), ?w5)"
    using assms by (intro Mp3WriteRegister_idle) simp_all
  have r4: "run_adds E [] [] 1 w ?w4" by (rule run_adds_read)
  have r5: "run_adds E [] [?m' OR SM_RESET E] 1 ?w4 ?w5"
    using run_adds_write [of E "SCI_MODE E" "?m' OR SM_RESET E" ?w4] by simp
  have "andThen (Mp3ReadRegister E rf (SCI_MODE E) w) (\<lambda>m w4.
                  andThen (Mp3WriteRegister rf (SCI_MODE E) (m OR SM_RESET E) w4) (\<lambda>_ w5.
                    Inr ((), w5\<lparr>isPatched := False\<rparr>)))
                = Inr ((), ?w5\<lparr>isPatched := False\<rparr>)"
    using rd4 wr5 by (simp add: andThen_def)
  moreover have "run_adds E [] [?m' OR SM_RESET E] 2 w ?w5"
    by (rule run_adds_step [OF r4 r5]) simp_all
  moreover have "bus_only w ?w5" by simp
  moreover have "take 6 (bus_log ?w5)
               = [CsHigh, Xfer (byte0 (?m' OR SM_RESET E)), Xfer (byte1 (?m' OR SM_RESET E)),
                  Xfer (SCI_MODE E), Xfer 0x02, CsLow True]"
    by simp
  ultimately show ?thesis by blast
qed

lemma Mp3ReadWRAM_run:
  assumes "reset_pin w" and "playing_state w \<noteq> playback" and "2 \<le> ready_count (dreq_in w)"
  shows "\<exists>w'. Mp3ReadWRAM E rf a False w
                = Inr (ucast (sci_value E (CsHigh # Xfer (byte0 a) # Xfer (byte1 a)
                                 # Xfer (SCI_WRAMADDR E) # Xfer 0x02 # CsLow True # bus_log w)
                                (SCI_WRAM E)), w')
           \<and> bus_only w w' \<and> ready_count (dreq_in w) \<le> ready_count (dreq_in w') + 2
           \<and> (SCI_WRAMADDR E \<noteq> SCI_MODE E \<longrightarrow> run_adds E [] [] 2 w w')"
proof -
  let ?w' = "w\<lparr>dreq_in := after_wait (after_wait (dreq_in w)),
              bus_log := CsHigh # Xfer 0xFF # Xfer 0xFF # Xfer (SCI_WRAM E) # Xfer 0x03
                         # CsLow False
                         # CsHigh # Xfer (byte0 a) # Xfer (byte1 a)
                         # Xfer (SCI_WRAMADDR E) # Xfer 0x02 # CsLow True # bus_log w\<rparr>"
  have "Mp3ReadWRAM E rf a False w
                = Inr (ucast (sci_value E (CsHigh # Xfer (byte0 a) # Xfer (byte1 a)
                                 # Xfer (SCI_WRAMADDR E) # Xfer 0x02 # CsLow True # bus_log w)
                                (SCI_WRAM E)), ?w')"
    using assms by (intro Mp3ReadWRAM_idle) simp_all
  moreover have "bus_only w ?w'" by simp
  moreover have "ready_count (dreq_in w) \<le> ready_count (dreq_in ?w') + 2" by simp
  moreover have "SCI_WRAMADDR E \<noteq> SCI_MODE E \<longrightarrow> run_adds E [] [] 2 w ?w'"
    unfolding run_adds_def
    by (intro impI conjI exI [of _ "[CsHigh, Xfer 0xFF, Xfer 0xFF, Xfer (SCI_WRAM E), Xfer 0x03,
              CsLow False, CsHigh, Xfer (byte0 a), Xfer (byte1 a), Xfer (SCI_WRAMADDR E),
              Xfer 0x02, CsLow True]"]) simp_all
  ultimately show ?thesis by blast
qed





section \<open>The cancel handshake\<close>



lemma cancel_requested_skip [simp]:
  "cancel_requested E (Xfer b # h) = cancel_requested E h"
  "cancel_requested E (CsLow t # h) = cancel_requested E h"
  by (simp_all add: cancel_requested_def)




section \<open>The handshake on any chip\<close>

lemma keeps_refl [simp]: "keeps 0 w w"
  by (simp add: keeps_def)

lemma keeps_step:
  "keeps d1 w w1 \<Longrightarrow> keeps d2 w1 w2 \<Longrightarrow> d1 + d2 \<le> d \<Longrightarrow> keeps d w w2"
  by (auto simp add: keeps_def)

lemma keeps_bus_only:
  "bus_only w w' \<Longrightarrow> ready_count (dreq_in w) \<le> ready_count (dreq_in w') + d \<Longrightarrow> keeps d w w'"
  by (simp add: keeps_def bus_only_fields)

lemma keeps_frame:
  assumes "keeps d w w'"
  shows "reset_pin w' = reset_pin w" and "playing_state w' = playing_state w"
    and "isSkipping w' = isSkipping w" and "ready_count (dreq_in w) \<le> ready_count (dreq_in w') + d"
  using assms by (simp_all add: keeps_def)

lemma feed_step_any:
  assumes "length (mp3DataBuffer w) = BUFFER_SIZE E" and "unat (bufferOffset w) + 32 \<le> BUFFER_SIZE E"
    and "BUFFER_SIZE E < 65536" and "32 dvd BUFFER_SIZE E" and "32 dvd unat (bufferOffset w)"
  shows "\<exists>w'. andThen (feed_buffer32 (dcs_low True w)) (\<lambda>_ w5.
                 Inr (fb, (dcs_high w5)\<lparr>bufferOffset := bufferOffset w5 + 32\<rparr>)) = Inr (fb, w')
             \<and> keeps 0 w w' \<and> buffer_ok E w'"
proof -
  let ?w' = "w\<lparr>bufferOffset := bufferOffset w + 32,
               bus_log := DcsHigh # map (\<lambda>i. Xfer (mp3DataBuffer w ! (unat (bufferOffset w) + i)))
                                      (rev [0..<32]) @ DcsLow True # bus_log w\<rparr>"
  have u: "unat (bufferOffset w + 32) = unat (bufferOffset w) + 32"
    using assms(2,3) by (simp add: unat_plus_32)
  have "andThen (feed_buffer32 (dcs_low True w)) (\<lambda>_ w5.
          Inr (fb, (dcs_high w5)\<lparr>bufferOffset := bufferOffset w5 + 32\<rparr>)) = Inr (fb, ?w')"
    using assms(1,2)
    by (simp add: andThen_def feed_buffer32_ok dcs_low_def dcs_high_def)
  moreover have "keeps 0 w ?w'" by (simp add: keeps_def)
  moreover have "buffer_ok E ?w'"
    using assms u by (simp add: buffer_ok_def)
  ultimately show ?thesis by blast
qed

lemma cancel_read_data_any:
  assumes "reset_pin w" and "playing_state w \<noteq> playback" and "2 \<le> ready_count (dreq_in w)"
    and "buffer_ok E w"
  shows "\<exists>fb' w'. cancel_read_data E rf fb w = Inr (fb', w') \<and> keeps 2 w w'
            \<and> length (mp3DataBuffer w') = BUFFER_SIZE E
            \<and> 32 dvd unat (bufferOffset w')
            \<and> unat (bufferOffset w') + 32 \<le> BUFFER_SIZE E"
proof -
  let ?B = "BUFFER_SIZE E"
  have B: "length (mp3DataBuffer w) = ?B" "32 dvd ?B" "0 < ?B" "?B < 65536"
    "32 dvd unat (bufferOffset w)" "unat (bufferOffset w) \<le> ?B"
    using assms(4) by (simp_all add: buffer_ok_def)
  have B32: "32 \<le> ?B" using B(2,3) by (auto elim!: dvdE)
  show ?thesis
  proof (cases "unat (bufferOffset w) = ?B")
    case False
    then have lt: "unat (bufferOffset w) + 32 \<le> ?B"
      using dvd32_step [OF B(5) B(2)] B(6) by simp
    have "cancel_read_data E rf fb w = Inr (fb, w)"
      using False by (simp add: cancel_read_data_def)
    moreover have "keeps 2 w w" by (simp add: keeps_def)
    ultimately show ?thesis using B lt by blast
  next
    case True
    let ?r = "fst (sd_read ?B (track w))"
    let ?w1 = "w\<lparr>mp3DataBuffer := fst (snd (sd_read ?B (track w)))
                                @ drop (length (fst (snd (sd_read ?B (track w))))) (mp3DataBuffer w),
                 track := snd (snd (sd_read ?B (track w))),
                 sd_log := OpRead ?B # sd_log w\<rparr>"
    have rd: "track_read_buffer ?B w = Inr (?r, ?w1)"
      using B(1) by (simp add: track_read_buffer_ok)
    have len1: "length (mp3DataBuffer ?w1) = ?B"
      using sd_read_length [of ?B "track w"] B(1) by simp
    show ?thesis
    proof (cases "?r = 0")
      case False
      have "cancel_read_data E rf fb w = Inr (fb, ?w1\<lparr>bufferOffset := 0\<rparr>)"
        using True False rd by (simp add: cancel_read_data_def andThen_def)
      moreover have "keeps 2 w (?w1\<lparr>bufferOffset := 0\<rparr>)"
        by (simp add: keeps_def)
      moreover have "length (mp3DataBuffer (?w1\<lparr>bufferOffset := 0\<rparr>)) = ?B"
        using len1 by simp
      moreover have "32 dvd unat (bufferOffset (?w1\<lparr>bufferOffset := 0\<rparr>))" by simp
      moreover have "unat (bufferOffset (?w1\<lparr>bufferOffset := 0\<rparr>)) + 32 \<le> ?B"
        using B32 by simp
      ultimately show ?thesis by blast
    next
      case r0: True
      let ?log2 = "CsHigh # Xfer 0xFF # Xfer 0xFF # Xfer (SCI_WRAM E) # Xfer 0x03 # CsLow False
                   # CsHigh # Xfer (byte0 (para_endFillByte E)) # Xfer (byte1 (para_endFillByte E))
                   # Xfer (SCI_WRAMADDR E) # Xfer 0x02 # CsLow True # bus_log w"
      let ?w2 = "?w1\<lparr>dreq_in := after_wait (after_wait (dreq_in w)), bus_log := ?log2\<rparr>"
      obtain data where wr: "Mp3ReadWRAM E rf (para_endFillByte E) False ?w1 = Inr (data, ?w2)"
        using assms(1,2,3) by (simp add: Mp3ReadWRAM_idle)
      let ?fb = "ucast ((ucast data :: u16) AND 0x00FF) :: u8"
      let ?w3 = "?w2\<lparr>mp3DataBuffer := replicate ?B ?fb, bufferOffset := 0\<rparr>"
      have "cancel_read_data E rf fb w = Inr (?fb, ?w3)"
        using True r0 rd wr by (simp add: cancel_read_data_def andThen_def Let_def)
      moreover have "keeps 2 w ?w3" by (simp add: keeps_def)
      moreover have "length (mp3DataBuffer ?w3) = ?B" by simp
      moreover have "32 dvd unat (bufferOffset ?w3)" by simp
      moreover have "unat (bufferOffset ?w3) + 32 \<le> ?B" using B32 by simp
      ultimately show ?thesis by blast
    qed
  qed
qed

lemma cancel_feed_track_any:
  assumes "reset_pin w" and "playing_state w \<noteq> playback" and "2 \<le> ready_count (dreq_in w)"
    and "buffer_ok E w"
  shows "\<exists>fb' w'. cancel_feed_track E rf fb w = Inr (fb', w') \<and> keeps 2 w w' \<and> buffer_ok E w'"
proof -
  have B: "BUFFER_SIZE E < 65536" "32 dvd BUFFER_SIZE E"
    using assms(4) by (simp_all add: buffer_ok_def)
  from cancel_read_data_any [OF assms, of rf fb] obtain fb' w1 where
    a: "cancel_read_data E rf fb w = Inr (fb', w1)" and b: "keeps 2 w w1"
    and c: "length (mp3DataBuffer w1) = BUFFER_SIZE E" "32 dvd unat (bufferOffset w1)"
      "unat (bufferOffset w1) + 32 \<le> BUFFER_SIZE E"
    by blast
  from feed_step_any [OF c(1) c(3) B c(2), of fb'] obtain w' where
    d: "andThen (feed_buffer32 (dcs_low True w1)) (\<lambda>_ w5.
          Inr (fb', (dcs_high w5)\<lparr>bufferOffset := bufferOffset w5 + 32\<rparr>)) = Inr (fb', w')"
    and e: "keeps 0 w1 w'" and f: "buffer_ok E w'"
    by blast
  have "cancel_feed_track E rf fb w = Inr (fb', w')"
    using a d by (simp add: cancel_feed_track_def andThen_def)
  moreover have "keeps 2 w w'"
    by (rule keeps_step [OF b e]) simp
  ultimately show ?thesis using f by blast
qed

lemma cancel_loop_any:
  assumes "reset_pin w" and "playing_state w \<noteq> playback" and "4 * n \<le> ready_count (dreq_in w)"
    and "ft \<longrightarrow> buffer_ok E w"
  shows "\<exists>r w'. cancel_loop E rf ft n fb w = Inr (r, w') \<and> keeps (4 * n) w w'
           \<and> (ft \<longrightarrow> buffer_ok E w') \<and> (\<not> ft \<longrightarrow> bus_only w w')"
  using assms
proof (induction n arbitrary: w fb)
  case 0
  then show ?case by auto
next
  case (Suc n)
  let ?w1 = "w\<lparr>dreq_in := after_wait (dreq_in w)\<rparr>"
  have wt: "wait_DREQ w = Inr ((), ?w1)"
    using Suc.prems(3) by (simp add: wait_DREQ_ready)
  have r1: "keeps 1 w ?w1" by (simp add: keeps_def)
  have "\<exists>fb' w2. (if ft then cancel_feed_track E rf fb ?w1
                     else Inr (fb, dcs_high ((SPI_send fb ^^ 32) (dcs_low True ?w1)))) = Inr (fb', w2)
          \<and> keeps 2 ?w1 w2 \<and> (ft \<longrightarrow> buffer_ok E w2) \<and> (\<not> ft \<longrightarrow> bus_only w w2)"
  proof (cases ft)
    case True
    have "buffer_ok E ?w1" using True Suc.prems(4) by (simp add: buffer_ok_def)
    moreover have "2 \<le> ready_count (dreq_in ?w1)" using Suc.prems(3) by simp
    ultimately show ?thesis
      using cancel_feed_track_any [of ?w1 E rf fb] True Suc.prems(1,2) by simp
  next
    case False
    have "dcs_high ((SPI_send fb ^^ 32) (dcs_low True ?w1))
          = ?w1\<lparr>bus_log := DcsHigh # replicate 32 (Xfer fb) @ DcsLow True # bus_log ?w1\<rparr>"
      by (simp add: dcs_high_def dcs_low_def SPI_send_funpow)
    moreover have "keeps 2 ?w1
       (?w1\<lparr>bus_log := DcsHigh # replicate 32 (Xfer fb) @ DcsLow True # bus_log ?w1\<rparr>)"
      by (simp add: keeps_def)
    moreover have "bus_only w
       (?w1\<lparr>bus_log := DcsHigh # replicate 32 (Xfer fb) @ DcsLow True # bus_log ?w1\<rparr>)"
      by simp
    ultimately show ?thesis using False by simp
  qed
  then obtain fb' w2 where
    fd: "(if ft then cancel_feed_track E rf fb ?w1
          else Inr (fb, dcs_high ((SPI_send fb ^^ 32) (dcs_low True ?w1)))) = Inr (fb', w2)"
    and r2: "keeps 2 ?w1 w2" and b2: "ft \<longrightarrow> buffer_ok E w2" and o2: "\<not> ft \<longrightarrow> bus_only w w2"
    by blast
  have r12: "keeps 3 w w2"
    by (rule keeps_step [OF r1 r2]) simp
  note f2 = keeps_frame [OF r12]
  have p2: "reset_pin w2" "playing_state w2 \<noteq> playback" "0 < ready_count (dreq_in w2)"
    using f2 Suc.prems(1,2,3) by simp_all
  let ?w3 = "w2\<lparr>dreq_in := after_wait (dreq_in w2),
               bus_log := CsHigh # Xfer 0xFF # Xfer 0xFF # Xfer (SCI_MODE E) # Xfer 0x03
                          # CsLow False # bus_log w2\<rparr>"
  let ?v = "sci_value E (bus_log w2) (SCI_MODE E)"
  have rd: "Mp3ReadRegister E rf (SCI_MODE E) w2 = Inr (?v, ?w3)"
    using p2 by (rule Mp3ReadRegister_idle)
  have r3: "keeps 1 w2 ?w3" by (simp add: keeps_def)
  have r13: "keeps 4 w ?w3"
    by (rule keeps_step [OF r12 r3]) simp
  have b3: "ft \<longrightarrow> buffer_ok E ?w3" using b2 by (simp add: buffer_ok_def)
  have o3: "\<not> ft \<longrightarrow> bus_only w ?w3" using o2 by simp
  have unfold: "cancel_loop E rf ft (Suc n) fb w =
       (if ?v AND SM_CANCEL E = 0 then Inr (True, ?w3) else cancel_loop E rf ft n fb' ?w3)"
    using wt fd rd by (simp add: andThen_def)
  show ?case
  proof (cases "?v AND SM_CANCEL E = 0")
    case True
    have "cancel_loop E rf ft (Suc n) fb w = Inr (True, ?w3)"
      using unfold True by simp
    moreover have "keeps (4 * Suc n) w ?w3"
      by (rule keeps_step [OF r13 keeps_refl]) simp
    ultimately show ?thesis using b3 o3 by blast
  next
    case False
    have p3: "reset_pin ?w3" "playing_state ?w3 \<noteq> playback" "4 * n \<le> ready_count (dreq_in ?w3)"
      using keeps_frame [OF r13] Suc.prems(1,2,3) by simp_all
    from Suc.IH [OF p3 b3, of fb'] obtain r w' where
      i1: "cancel_loop E rf ft n fb' ?w3 = Inr (r, w')"
      and i2: "keeps (4 * n) ?w3 w'"
      and i3: "ft \<longrightarrow> buffer_ok E w'" and i4: "\<not> ft \<longrightarrow> bus_only ?w3 w'"
      by blast
    have "cancel_loop E rf ft (Suc n) fb w = Inr (r, w')"
      using unfold False i1 by simp
    moreover have "keeps (4 * Suc n) w w'"
      by (rule keeps_step [OF r13 i2]) simp
    moreover have "\<not> ft \<longrightarrow> bus_only w w'"
      using o3 i4 bus_only_trans by blast
    ultimately show ?thesis using i3 by blast
  qed
qed

lemma cancelDecoding_any:
  assumes "reset_pin w" and "playing_state w \<noteq> playback" and "260 \<le> ready_count (dreq_in w)"
    and "ft \<longrightarrow> buffer_ok E w"
  shows "\<exists>w'. cancelDecoding E rf ft fb w = Inr ((), w') \<and> keeps 260 w w'
           \<and> (ft \<longrightarrow> buffer_ok E w') \<and> (\<not> ft \<longrightarrow> bus_only w w')"
proof -
  let ?m = "sci_value E (bus_log w) (SCI_MODE E)"
  let ?w1 = "w\<lparr>dreq_in := after_wait (dreq_in w),
               bus_log := CsHigh # Xfer 0xFF # Xfer 0xFF # Xfer (SCI_MODE E) # Xfer 0x03
                          # CsLow False # bus_log w\<rparr>"
  let ?w2 = "?w1\<lparr>dreq_in := after_wait (dreq_in ?w1),
               bus_log := CsHigh # Xfer (byte0 (?m OR SM_CANCEL E)) # Xfer (byte1 (?m OR SM_CANCEL E))
                          # Xfer (SCI_MODE E) # Xfer 0x02 # CsLow True # bus_log ?w1\<rparr>"
  have rd: "Mp3ReadRegister E rf (SCI_MODE E) w = Inr (?m, ?w1)"
    using assms(1,2,3) by (intro Mp3ReadRegister_idle) simp_all
  have wr: "Mp3WriteRegister rf (SCI_MODE E) (?m OR SM_CANCEL E) ?w1 = Inr ((), ?w2)"
    using assms(1,2,3) by (intro Mp3WriteRegister_idle) simp_all
  have r12: "keeps 2 w ?w2" by (simp add: keeps_def)
  have o12: "bus_only w ?w2" by simp
  have p2: "reset_pin ?w2" "playing_state ?w2 \<noteq> playback" "4 * 64 \<le> ready_count (dreq_in ?w2)"
    using assms(1,2,3) by simp_all
  have q2: "ft \<longrightarrow> buffer_ok E ?w2"
    using assms(4) by (simp add: buffer_ok_def)
  from cancel_loop_any [OF p2 q2, of rf fb] obtain r w3 where
    lp: "cancel_loop E rf ft 64 fb ?w2 = Inr (r, w3)"
    and r3: "keeps (4 * 64) ?w2 w3" and b3: "ft \<longrightarrow> buffer_ok E w3"
    and o3: "\<not> ft \<longrightarrow> bus_only ?w2 w3"
    by blast
  have r13: "keeps 258 w w3"
    by (rule keeps_step [OF r12 r3]) simp
  have o13: "\<not> ft \<longrightarrow> bus_only w w3"
    using o12 o3 bus_only_trans by blast
  show ?thesis
  proof (cases r)
    case True
    have "cancelDecoding E rf ft fb w = Inr ((), w3)"
      using rd wr lp True by (simp add: cancelDecoding_def andThen_def)
    moreover have "keeps 260 w w3"
      by (rule keeps_step [OF r13 keeps_refl]) simp
    ultimately show ?thesis using b3 o13 by blast
  next
    case False
    have p3: "reset_pin w3" "playing_state w3 \<noteq> playback" "2 \<le> ready_count (dreq_in w3)"
      using keeps_frame [OF r13] assms(1,2,3) by simp_all
    from soft_reset_run [OF p3, of E rf] obtain m' w5 where
      c1: "andThen (Mp3ReadRegister E rf (SCI_MODE E) w3) (\<lambda>m w4.
                  andThen (Mp3WriteRegister rf (SCI_MODE E) (m OR SM_RESET E) w4) (\<lambda>_ w5.
                    Inr ((), w5\<lparr>isPatched := False\<rparr>)))
                = Inr ((), w5\<lparr>isPatched := False\<rparr>)"
      and c2: "run_adds E [] [m' OR SM_RESET E] 2 w3 w5" and c3: "bus_only w3 w5"
      by blast
    have k5: "keeps 2 w3 (w5\<lparr>isPatched := False\<rparr>)"
      using c3 run_adds_frame(4) [OF c2] by (intro keeps_bus_only) simp_all
    have "cancelDecoding E rf ft fb w = Inr ((), w5\<lparr>isPatched := False\<rparr>)"
      using rd wr lp False c1 by (simp add: cancelDecoding_def andThen_def)
    moreover have "keeps 260 w (w5\<lparr>isPatched := False\<rparr>)"
      by (rule keeps_step [OF r13 k5]) simp
    moreover have "ft \<longrightarrow> buffer_ok E (w5\<lparr>isPatched := False\<rparr>)"
      using b3 bus_only_fields(6,7) [OF c3] by (simp add: buffer_ok_def)
    moreover have "\<not> ft \<longrightarrow> bus_only w (w5\<lparr>isPatched := False\<rparr>)"
      using o13 c3 bus_only_trans by auto
    ultimately show ?thesis by blast
  qed
qed


section \<open>Skipping to the end of an OGG track\<close>

lemma track_end_run:
  assumes "reset_pin w" and "2314 \<le> ready_count (dreq_in w)"
  shows "\<exists>w4. andThen (Mp3ReadWRAM E rf (para_endFillByte E) False
                       (disableRefill False (w\<lparr>position := p, playing_state := cancelling\<rparr>)))
              (\<lambda>data w2.
            andThen (fillEnd (ucast ((ucast data :: u16) AND 0x00FF)) w2) (\<lambda>_ w3.
            andThen (cancelDecoding E rf False (ucast ((ucast data :: u16) AND 0x00FF)) w3)
              (\<lambda>_ w4. Inr (False, (track_close w4)\<lparr>playing_state := ready\<rparr>))))
            = Inr (False, (track_close w4)\<lparr>playing_state := ready\<rparr>)
          \<and> bus_only (disableRefill False (w\<lparr>position := p, playing_state := cancelling\<rparr>)) w4
          \<and> ready_count (dreq_in w) \<le> ready_count (dreq_in w4) + 2314"
proof -
  let ?w0 = "disableRefill False (w\<lparr>position := p, playing_state := cancelling\<rparr>)"
  have p0: "reset_pin ?w0" "playing_state ?w0 \<noteq> playback" "2 \<le> ready_count (dreq_in ?w0)"
    "dreq_in ?w0 = dreq_in w"
    using assms by (simp_all add: disableRefill_def)
  from Mp3ReadWRAM_run [OF p0(1,2,3), of E rf "para_endFillByte E"] obtain data w2 where
    a1: "Mp3ReadWRAM E rf (para_endFillByte E) False ?w0 = Inr (data, w2)"
    and a2: "bus_only ?w0 w2" and a3: "ready_count (dreq_in ?w0) \<le> ready_count (dreq_in w2) + 2"
    by blast
  let ?b = "ucast ((ucast data :: u16) AND 0x00FF) :: u8"
  let ?w3 = "w2\<lparr>dreq_in := (after_wait ^^ 2052) (dreq_in w2),
               bus_log := DcsHigh # replicate (32 * 2052) (Xfer ?b) @ DcsLow True # bus_log w2\<rparr>"
  have r2: "2052 \<le> ready_count (dreq_in w2)" using a3 p0(4) assms(2) by simp
  have b1: "fillEnd ?b w2 = Inr ((), ?w3)" using r2 by (rule fillEnd_ready)
  have b2: "bus_only ?w0 ?w3" using a2 by simp
  have p3: "reset_pin ?w3" "playing_state ?w3 \<noteq> playback" "260 \<le> ready_count (dreq_in ?w3)"
    using bus_only_fields(1,2) [OF b2] p0 a3 assms(2) by simp_all
  have q3: "False \<longrightarrow> buffer_ok E ?w3" by simp
  from cancelDecoding_any [OF p3 q3, of rf ?b] obtain w4 where
    c1: "cancelDecoding E rf False ?b ?w3 = Inr ((), w4)" and c2: "keeps 260 ?w3 w4"
    and c3: "bus_only ?w3 w4"
    by auto
  have "andThen (Mp3ReadWRAM E rf (para_endFillByte E) False ?w0)
              (\<lambda>data w2.
            andThen (fillEnd (ucast ((ucast data :: u16) AND 0x00FF)) w2) (\<lambda>_ w3.
            andThen (cancelDecoding E rf False (ucast ((ucast data :: u16) AND 0x00FF)) w3)
              (\<lambda>_ w4. Inr (False, (track_close w4)\<lparr>playing_state := ready\<rparr>))))
            = Inr (False, (track_close w4)\<lparr>playing_state := ready\<rparr>)"
    using a1 b1 c1 by (simp add: andThen_def)
  moreover have "bus_only ?w0 w4" by (rule bus_only_trans [OF b2 c3])
  moreover have "ready_count (dreq_in w) \<le> ready_count (dreq_in w4) + 2314"
    using a3 p0(4) keeps_frame(4) [OF c2] by simp
  ultimately show ?thesis by blast
qed

lemma cancelling_run:
  assumes "reset_pin w" and "playing_state w = cancelling"
    and "2314 \<le> ready_count (dreq_in w)" and "buffer_ok E w"
  shows "\<exists>w3. refill_after_read E rf w = Inr (False, (track_close w3)\<lparr>playing_state := ready\<rparr>)
           \<and> keeps 2314 w w3"
proof -
  let ?w0 = "disableRefill False w"
  have p0: "reset_pin ?w0" "playing_state ?w0 \<noteq> playback" "260 \<le> ready_count (dreq_in ?w0)"
    using assms by (simp_all add: disableRefill_def)
  have q0: "True \<longrightarrow> buffer_ok E ?w0"
    using assms(4) by (simp add: disableRefill_def buffer_ok_def)
  have k0: "keeps 0 w ?w0" by (simp add: keeps_def disableRefill_def)
  from cancelDecoding_any [OF p0 q0, of rf 0] obtain w1 where
    a1: "cancelDecoding E rf True 0 ?w0 = Inr ((), w1)" and a2: "keeps 260 ?w0 w1"
    by auto
  have k1: "keeps 260 w w1" by (rule keeps_step [OF k0 a2]) simp
  have p1: "reset_pin w1" "playing_state w1 \<noteq> playback" "2 \<le> ready_count (dreq_in w1)"
    using keeps_frame [OF k1] assms by simp_all
  from Mp3ReadWRAM_run [OF p1, of E rf "para_endFillByte E"] obtain data w2 where
    b1: "Mp3ReadWRAM E rf (para_endFillByte E) False w1 = Inr (data, w2)"
    and b2: "bus_only w1 w2" and b3: "ready_count (dreq_in w1) \<le> ready_count (dreq_in w2) + 2"
    by blast
  have k2: "keeps 262 w w2"
    by (rule keeps_step [OF k1 keeps_bus_only [OF b2 b3]]) simp
  let ?b = "ucast ((ucast data :: u16) AND 0x00FF) :: u8"
  let ?w3 = "w2\<lparr>dreq_in := (after_wait ^^ 2052) (dreq_in w2),
               bus_log := DcsHigh # replicate (32 * 2052) (Xfer ?b) @ DcsLow True # bus_log w2\<rparr>"
  have r2: "2052 \<le> ready_count (dreq_in w2)"
    using keeps_frame(4) [OF k2] assms(3) by simp
  have c1: "fillEnd ?b w2 = Inr ((), ?w3)" using r2 by (rule fillEnd_ready)
  have c2: "keeps 2052 w2 ?w3" by (simp add: keeps_def)
  have "refill_after_read E rf w = Inr (False, (track_close ?w3)\<lparr>playing_state := ready\<rparr>)"
    using assms(2) a1 b1 c1 by (simp add: refill_after_read_def andThen_def)
  moreover have "keeps 2314 w ?w3"
    by (rule keeps_step [OF k2 c2]) simp
  ultimately show ?thesis by blast
qed

lemma sd_read_at_end:
  "fopen f \<Longrightarrow> drop (fpos f) (fdata f) = [] \<Longrightarrow> fst (sd_read n f) = 0"
  by (simp add: sd_read_def Let_def)

lemma refill_step_end_of_file:
  assumes "reset_pin w" and "2314 \<le> ready_count (dreq_in w)" and "buffer_ok E w"
    and "fopen (track w)" and "unread w = []" and "unat (bufferOffset w) = BUFFER_SIZE E"
  shows "\<exists>w'. refill_step E rf w = Inr (False, w') \<and> playing_state w' = ready
           \<and> \<not> fopen (track w') \<and> isSkipping w' = isSkipping w"
proof -
  let ?B = "BUFFER_SIZE E"
  let ?w1 = "w\<lparr>mp3DataBuffer := fst (snd (sd_read ?B (track w)))
                              @ drop (length (fst (snd (sd_read ?B (track w))))) (mp3DataBuffer w),
               track := snd (snd (sd_read ?B (track w))),
               sd_log := OpRead ?B # sd_log w\<rparr>"
  have B: "length (mp3DataBuffer w) = ?B" using assms(3) by (simp add: buffer_ok_def)
  have r0: "fst (sd_read ?B (track w)) = 0"
    using assms(4,5) by (intro sd_read_at_end) (simp_all add: unread_def)
  have rd: "track_read_buffer ?B w = Inr (0, ?w1)"
    using B r0 track_read_buffer_ok [of ?B w] by simp
  have p1: "reset_pin ?w1" "2314 \<le> ready_count (dreq_in ?w1)"
    using assms(1,2) by simp_all
  from track_end_run [OF p1, of E rf "ucast (duration ?w1)"] obtain w4 where
    a1: "andThen (Mp3ReadWRAM E rf (para_endFillByte E) False
                       (disableRefill False
                          (?w1\<lparr>position := ucast (duration ?w1), playing_state := cancelling\<rparr>)))
              (\<lambda>data w2.
            andThen (fillEnd (ucast ((ucast data :: u16) AND 0x00FF)) w2) (\<lambda>_ w3.
            andThen (cancelDecoding E rf False (ucast ((ucast data :: u16) AND 0x00FF)) w3)
              (\<lambda>_ w4. Inr (False, (track_close w4)\<lparr>playing_state := ready\<rparr>))))
            = Inr (False, (track_close w4)\<lparr>playing_state := ready\<rparr>)"
    and a2: "bus_only (disableRefill False
                          (?w1\<lparr>position := ucast (duration ?w1), playing_state := cancelling\<rparr>)) w4"
    by blast
  have "refill_step E rf w = Inr (False, (track_close w4)\<lparr>playing_state := ready\<rparr>)"
    using assms(6) rd a1 by (simp add: refill_step_def andThen_def)
  moreover have "isSkipping ((track_close w4)\<lparr>playing_state := ready\<rparr>) = isSkipping w"
    using bus_only_fields(3) [OF a2] by (simp add: track_close_def disableRefill_def)
  moreover have "\<not> fopen (track ((track_close w4)\<lparr>playing_state := ready\<rparr>))"
    by (simp add: track_close_def)
  ultimately show ?thesis by auto
qed

lemma refill_step_cancelling:
  assumes "reset_pin w" and "playing_state w = cancelling"
    and "2314 \<le> ready_count (dreq_in w)" and "buffer_ok E w"
  shows "\<exists>w'. refill_step E rf w = Inr (False, w') \<and> playing_state w' = ready
           \<and> \<not> fopen (track w') \<and> isSkipping w' = isSkipping w"
proof (cases "unat (bufferOffset w) = BUFFER_SIZE E")
  case False
  from cancelling_run [OF assms, of rf] obtain w3 where
    a: "refill_after_read E rf w = Inr (False, (track_close w3)\<lparr>playing_state := ready\<rparr>)"
    and b: "keeps 2314 w w3"
    by blast
  have "refill_step E rf w = Inr (False, (track_close w3)\<lparr>playing_state := ready\<rparr>)"
    using False a by (simp add: refill_step_def)
  moreover have "isSkipping ((track_close w3)\<lparr>playing_state := ready\<rparr>) = isSkipping w"
    using keeps_frame(3) [OF b] by (simp add: track_close_def)
  moreover have "\<not> fopen (track ((track_close w3)\<lparr>playing_state := ready\<rparr>))"
    by (simp add: track_close_def)
  ultimately show ?thesis by auto
next
  case True
  let ?B = "BUFFER_SIZE E"
  let ?r = "fst (sd_read ?B (track w))"
  let ?w1 = "w\<lparr>mp3DataBuffer := fst (snd (sd_read ?B (track w)))
                              @ drop (length (fst (snd (sd_read ?B (track w))))) (mp3DataBuffer w),
               track := snd (snd (sd_read ?B (track w))),
               sd_log := OpRead ?B # sd_log w\<rparr>"
  have B: "length (mp3DataBuffer w) = ?B" "32 dvd ?B" "0 < ?B" "?B < 65536"
    using assms(4) by (simp_all add: buffer_ok_def)
  have rd: "track_read_buffer ?B w = Inr (?r, ?w1)"
    using B(1) by (simp add: track_read_buffer_ok)
  show ?thesis
  proof (cases "?r = 0")
    case r0: True
    have p1: "reset_pin ?w1" "2314 \<le> ready_count (dreq_in ?w1)"
      using assms(1,3) by simp_all
    from track_end_run [OF p1, of E rf "ucast (duration ?w1)"] obtain w4 where
      a1: "andThen (Mp3ReadWRAM E rf (para_endFillByte E) False
                       (disableRefill False
                          (?w1\<lparr>position := ucast (duration ?w1), playing_state := cancelling\<rparr>)))
              (\<lambda>data w2.
            andThen (fillEnd (ucast ((ucast data :: u16) AND 0x00FF)) w2) (\<lambda>_ w3.
            andThen (cancelDecoding E rf False (ucast ((ucast data :: u16) AND 0x00FF)) w3)
              (\<lambda>_ w4. Inr (False, (track_close w4)\<lparr>playing_state := ready\<rparr>))))
            = Inr (False, (track_close w4)\<lparr>playing_state := ready\<rparr>)"
      and a2: "bus_only (disableRefill False
                          (?w1\<lparr>position := ucast (duration ?w1), playing_state := cancelling\<rparr>)) w4"
      by blast
    have "refill_step E rf w = Inr (False, (track_close w4)\<lparr>playing_state := ready\<rparr>)"
      using True rd r0 a1 by (simp add: refill_step_def andThen_def)
    moreover have "isSkipping ((track_close w4)\<lparr>playing_state := ready\<rparr>) = isSkipping w"
      using bus_only_fields(3) [OF a2] by (simp add: track_close_def disableRefill_def)
    moreover have "\<not> fopen (track ((track_close w4)\<lparr>playing_state := ready\<rparr>))"
      by (simp add: track_close_def)
    ultimately show ?thesis by auto
  next
    case False
    let ?w2 = "?w1\<lparr>bufferOffset := 0\<rparr>"
    have p2: "reset_pin ?w2" "playing_state ?w2 = cancelling" "2314 \<le> ready_count (dreq_in ?w2)"
      using assms(1,2,3) by simp_all
    have q2: "buffer_ok E ?w2"
      using B sd_read_length [of ?B "track w"] by (simp add: buffer_ok_def)
    from cancelling_run [OF p2 q2, of rf] obtain w3 where
      a: "refill_after_read E rf ?w2 = Inr (False, (track_close w3)\<lparr>playing_state := ready\<rparr>)"
      and b: "keeps 2314 ?w2 w3"
      by blast
    have "refill_step E rf w = Inr (False, (track_close w3)\<lparr>playing_state := ready\<rparr>)"
      using True rd False a by (simp add: refill_step_def andThen_def)
    moreover have "isSkipping ((track_close w3)\<lparr>playing_state := ready\<rparr>) = isSkipping w"
      using keeps_frame(3) [OF b] by (simp add: track_close_def)
    moreover have "\<not> fopen (track ((track_close w3)\<lparr>playing_state := ready\<rparr>))"
      by (simp add: track_close_def)
    ultimately show ?thesis by auto
  qed
qed

lemma refill_one_pass:
  assumes "dreq_in w = True # ds"
    and "refill_step E (refill_fuel E (length (dreq_in w))) (w\<lparr>dreq_in := ds\<rparr>) = Inr (False, w')"
    and "\<not> isSkipping w'"
  shows "refill E w = Inr ((), w')"
proof -
  have "refill_loop E (refill_fuel E (length (dreq_in w))) (length (dreq_in w)) w = Inr ((), w')"
    using assms(1,2) by (simp add: digitalRead_DREQ_def andThen_def)
  then show ?thesis
    using assms(3) by (simp add: refill_def refill_body_def andThen_def)
qed

lemma isBusy_1:
  "isBusy w = 0x01 \<longleftrightarrow>
     reset_pin w \<and> (playing_state w = playback \<or> playing_state w = paused_playback)"
  by (auto simp add: isBusy_def split: state_m.splits)

text \<open>C6: on an OGG session that is playing or paused (and not in the middle of a
  skip), with an intact transfer buffer, \<open>skipTo(t)\<close> with \<open>t\<close> at or beyond the
  duration returns 0, and the next refill cycle (one that finds DREQ high, with DREQ
  high often enough after that for the flush and the handshake) returns with the state
  ready and the track closed.  That is the outcome of the refill cycle that meets the
  end of the file: when the buffer is used up and the open track has no byte left, the
  refill cycle ends in state ready with the track closed as well.\<close>

theorem C6_skipTo_end_like_end_of_file:
  assumes "trackFormat w = ogg" and "isBusy w = 0x01" and "\<not> isSkipping w"
    and "buffer_ok E w" and "t \<ge> ucast (duration w)"
    and "dreq_in w = True # ds" and "2314 \<le> ready_count ds"
  shows "(\<exists>w1 w2. skipTo E t w = Inr (0, w1) \<and> refill E w1 = Inr ((), w2)
             \<and> playing_state w2 = ready \<and> \<not> fopen (track w2))
       \<and> (fopen (track w) \<and> unread w = [] \<and> unat (bufferOffset w) = BUFFER_SIZE E \<longrightarrow>
            (\<exists>w3. refill E w = Inr ((), w3)
               \<and> playing_state w3 = ready \<and> \<not> fopen (track w3)))"
proof (intro conjI impI)
  have rp: "reset_pin w" using assms(2) by (simp add: isBusy_1)
  let ?w1 = "if playing_state w = paused_playback
             then enableRefill False (w\<lparr>skipToPosition := duration w, playing_state := cancelling\<rparr>)
             else w\<lparr>skipToPosition := duration w, playing_state := cancelling\<rparr>"
  have sk: "skipTo E t w = Inr (0, ?w1)"
    using assms(1,2,5) by (simp add: skipTo_def Let_def)
  have f1: "dreq_in ?w1 = True # ds" "reset_pin ?w1" "playing_state ?w1 = cancelling"
    "\<not> isSkipping ?w1" "buffer_ok E ?w1"
    using assms(3,4,6) rp by (simp_all add: enableRefill_def buffer_ok_def)
  have p: "reset_pin (?w1\<lparr>dreq_in := ds\<rparr>)" "playing_state (?w1\<lparr>dreq_in := ds\<rparr>) = cancelling"
    "2314 \<le> ready_count (dreq_in (?w1\<lparr>dreq_in := ds\<rparr>))" "buffer_ok E (?w1\<lparr>dreq_in := ds\<rparr>)"
    using f1 assms(7) by (simp_all add: buffer_ok_def)
  from refill_step_cancelling [OF p, of "refill_fuel E (length (dreq_in ?w1))"] obtain w2 where
    a: "refill_step E (refill_fuel E (length (dreq_in ?w1))) (?w1\<lparr>dreq_in := ds\<rparr>) = Inr (False, w2)"
    and b: "playing_state w2 = ready" "\<not> fopen (track w2)"
      "isSkipping w2 = isSkipping (?w1\<lparr>dreq_in := ds\<rparr>)"
    by blast
  have "\<not> isSkipping w2" using b(3) f1(4) by simp
  from refill_one_pass [OF f1(1) a this]
  show "\<exists>w1 w2. skipTo E t w = Inr (0, w1) \<and> refill E w1 = Inr ((), w2)
             \<and> playing_state w2 = ready \<and> \<not> fopen (track w2)"
    using sk b(1,2) by blast
next
  assume e: "fopen (track w) \<and> unread w = [] \<and> unat (bufferOffset w) = BUFFER_SIZE E"
  have rp: "reset_pin w" using assms(2) by (simp add: isBusy_1)
  have p: "reset_pin (w\<lparr>dreq_in := ds\<rparr>)" "2314 \<le> ready_count (dreq_in (w\<lparr>dreq_in := ds\<rparr>))"
    "buffer_ok E (w\<lparr>dreq_in := ds\<rparr>)" "fopen (track (w\<lparr>dreq_in := ds\<rparr>))"
    "unread (w\<lparr>dreq_in := ds\<rparr>) = []" "unat (bufferOffset (w\<lparr>dreq_in := ds\<rparr>)) = BUFFER_SIZE E"
    using rp assms(4,7) e by (auto simp add: buffer_ok_def unread_def)
  from refill_step_end_of_file [OF p, of "refill_fuel E (length (dreq_in w))"] obtain w3 where
    a: "refill_step E (refill_fuel E (length (dreq_in w))) (w\<lparr>dreq_in := ds\<rparr>) = Inr (False, w3)"
    and b: "playing_state w3 = ready" "\<not> fopen (track w3)"
      "isSkipping w3 = isSkipping (w\<lparr>dreq_in := ds\<rparr>)"
    by blast
  have "\<not> isSkipping w3" using b(3) assms(3) by simp
  from refill_one_pass [OF assms(6) a this]
  show "\<exists>w3. refill E w = Inr ((), w3) \<and> playing_state w3 = ready \<and> \<not> fopen (track w3)"
    using b(1,2) by blast
qed


theorem C6_skipTo_end_like_end_of_file_witness:
  "unread ogg_mid_file \<noteq> []
   \<and> unat (bufferOffset ogg_mid_file) \<noteq> BUFFER_SIZE env_zero_chip
   \<and> (\<exists>w1 w2. skipTo env_zero_chip 5 ogg_mid_file = Inr (0, w1)
          \<and> playing_state w1 = cancelling
          \<and> refill env_zero_chip w1 = Inr ((), w2)
          \<and> playing_state w2 = ready \<and> \<not> fopen (track w2))
   \<and> (\<exists>w1 w2. skipTo env_zero_chip 5 ogg_at_end = Inr (0, w1)
          \<and> refill env_zero_chip w1 = Inr ((), w2)
          \<and> playing_state w2 = ready \<and> \<not> fopen (track w2))
   \<and> (\<exists>w3. refill env_zero_chip ogg_at_end = Inr ((), w3)
         \<and> playing_state w3 = ready \<and> \<not> fopen (track w3))"
proof -
  have m: "trackFormat ogg_mid_file = ogg" "isBusy ogg_mid_file = 0x01"
    "\<not> isSkipping ogg_mid_file" "buffer_ok env_zero_chip ogg_mid_file"
    "(5 :: u32) \<ge> ucast (duration ogg_mid_file)"
    "dreq_in ogg_mid_file = True # replicate 2314 True"
    "2314 \<le> ready_count (replicate 2314 True)"
    by (simp_all add: ogg_mid_file_def power_on_def isBusy_def buffer_ok_def env_zero_chip_def
          vs1053_env_def ogg_five_seconds_def)
  have mid: "unread ogg_mid_file \<noteq> []"
    "unat (bufferOffset ogg_mid_file) \<noteq> BUFFER_SIZE env_zero_chip"
    by (simp_all add: ogg_mid_file_def power_on_def unread_def ogg_five_seconds_def
          env_zero_chip_def vs1053_env_def)
  have sk: "skipTo env_zero_chip 5 ogg_mid_file
            = Inr (0, ogg_mid_file\<lparr>skipToPosition := 5, playing_state := cancelling\<rparr>)"
    by (simp add: skipTo_def isBusy_def ogg_mid_file_def power_on_def Let_def)
  have h: "trackFormat ogg_at_end = ogg" "isBusy ogg_at_end = 0x01" "\<not> isSkipping ogg_at_end"
    "buffer_ok env_zero_chip ogg_at_end" "(5 :: u32) \<ge> ucast (duration ogg_at_end)"
    "dreq_in ogg_at_end = True # replicate 2314 True"
    "2314 \<le> ready_count (replicate 2314 True)"
    by (simp_all add: ogg_at_end_def power_on_def isBusy_def buffer_ok_def env_zero_chip_def
          vs1053_env_def)
  have e: "fopen (track ogg_at_end) \<and> unread ogg_at_end = []
           \<and> unat (bufferOffset ogg_at_end) = BUFFER_SIZE env_zero_chip"
    by (simp add: ogg_at_end_def power_on_def unread_def ogg_five_seconds_def env_zero_chip_def
          vs1053_env_def)
  note tm = C6_skipTo_end_like_end_of_file [where E = env_zero_chip and w = ogg_mid_file
      and t = 5 and ds = "replicate 2314 True", OF m, THEN conjunct1]
  note t = C6_skipTo_end_like_end_of_file [where E = env_zero_chip and w = ogg_at_end and t = 5
      and ds = "replicate 2314 True", OF h]
  from tm obtain w1 w2 where
    a: "skipTo env_zero_chip 5 ogg_mid_file = Inr (0, w1)"
      "refill env_zero_chip w1 = Inr ((), w2)" "playing_state w2 = ready" "\<not> fopen (track w2)"
    by blast
  have "playing_state w1 = cancelling" using a(1) sk by auto
  then have A: "\<exists>w1 w2. skipTo env_zero_chip 5 ogg_mid_file = Inr (0, w1)
          \<and> playing_state w1 = cancelling
          \<and> refill env_zero_chip w1 = Inr ((), w2)
          \<and> playing_state w2 = ready \<and> \<not> fopen (track w2)"
    using a by blast
  show ?thesis using mid A t e by blast
qed

section \<open>The refill loop on a session that plays or is paused\<close>

lemma ready_count_Cons [simp]:
  "ready_count (True # ds) = Suc (ready_count ds)"
  "ready_count (False # ds) = ready_count ds"
  "ready_count [] = 0"
  by (simp_all add: ready_count_def)

lemma seek_ops_simps [simp]:
  "seek_ops (OpRead n # log) = seek_ops log"
  "seek_ops (OpClose # log) = seek_ops log"
  "seek_ops (OpSeekSet p # log) = OpSeekSet p # seek_ops log"
  by (simp_all add: seek_ops_def)












section \<open>Register access while the stream is playing\<close>









section \<open>Skipping in a frame-coded track\<close>




















end
